theory Spec2Isabelle
  imports Main "HOL-Library.Word"
begin

section \<open>Strings and buffers of the JavaScript runtime\<close>

text \<open>
  The two servers of the repository (the file-backed one and the document-store one)
  share the key generator. It works on a buffer of bytes and on strings; only the
  string operations the source calls are modelled, on ASCII text, which is all the
  generator applies them to (hexadecimal digits and the base-36 digits of a number).
\<close>

definition upper_char :: "char \<Rightarrow> char" where
  "upper_char c =
     (case map_of (zip ''abcdefghijklmnopqrstuvwxyz'' ''ABCDEFGHIJKLMNOPQRSTUVWXYZ'') c of
        Some u \<Rightarrow> u
      | None \<Rightarrow> c)"

definition toUpperCase :: "string \<Rightarrow> string" where
  "toUpperCase s = map upper_char s"

text \<open>\<open>s.substr(start, len)\<close> and \<open>s.substring(a, b)\<close> for \<open>0 \<le> a \<le> b\<close>.\<close>

definition substr :: "string \<Rightarrow> nat \<Rightarrow> nat \<Rightarrow> string" where
  "substr s start len = take len (drop start s)"

definition substring :: "string \<Rightarrow> nat \<Rightarrow> nat \<Rightarrow> string" where
  "substring s a b = take (b - a) (drop a s)"

definition hex_digit :: "nat \<Rightarrow> char" where
  "hex_digit n = ''0123456789abcdef'' ! n"

text \<open>\<open>buffer.toString('hex')\<close>: two lowercase digits for each byte.\<close>

definition hex_byte :: "8 word \<Rightarrow> string" where
  "hex_byte b = [hex_digit (unat b div 16), hex_digit (unat b mod 16)]"

definition toString_hex :: "8 word list \<Rightarrow> string" where
  "toString_hex bs = concat (map hex_byte bs)"

section \<open>The key generator\<close>

text \<open>
  What the entropy source did in one call of \<open>generateLicenseKey\<close>:
  \<open>RandomBytes bs\<close> when \<open>crypto.randomBytes(12)\<close> returned the buffer \<open>bs\<close>
  (of 12 bytes), \<open>EntropyError r\<close> when it threw, \<open>r\<close> being the text of
  \<open>Math.random().toString(36)\<close> that the \<open>catch\<close> block then reads.
\<close>

datatype entropy = RandomBytes "8 word list" | EntropyError string

definition generateLicenseKey :: "string \<Rightarrow> entropy \<Rightarrow> string" where
  "generateLicenseKey prefix e =
     (case e of
        RandomBytes randomBytes \<Rightarrow>
          (let randomHex = toUpperCase (toString_hex randomBytes);
               section1 = substr randomHex 0 8;
               section2 = substr randomHex 8 8;
               section3 = substr randomHex 16 8
           in prefix @ ''-'' @ section1 @ ''-'' @ section2 @ ''-'' @ section3)
      | EntropyError r \<Rightarrow> prefix @ ''-'' @ toUpperCase (substring r 2 10))"

text \<open>
  The format of the specification, \<open>PREFIX-[0-9A-F]{8}-[0-9A-F]{8}-[0-9A-F]{8}\<close>:
  the given prefix, then three times a hyphen and eight uppercase hexadecimal digits,
  and nothing else. This definition follows the specification's words; the generator
  above is compared with it.
\<close>

definition is_upper_hex :: "char \<Rightarrow> bool" where
  "is_upper_hex c = (c \<in> set ''0123456789ABCDEF'')"

definition hex8 :: "string \<Rightarrow> bool" where
  "hex8 s = (length s = 8 \<and> list_all is_upper_hex s)"

definition key_format :: "string \<Rightarrow> string \<Rightarrow> bool" where
  "key_format prefix key =
     (let n = length prefix; rest = drop n key
      in take n key = prefix \<and> length rest = 27 \<and>
         take 1 rest = ''-'' \<and> hex8 (take 8 (drop 1 rest)) \<and>
         take 1 (drop 9 rest) = ''-'' \<and> hex8 (take 8 (drop 10 rest)) \<and>
         take 1 (drop 18 rest) = ''-'' \<and> hex8 (take 8 (drop 19 rest)))"

text \<open>
  The text that \<open>Math.random().toString(36)\<close> can return: \<open>0\<close>, or \<open>0.\<close> followed by
  one or more base-36 digits.
\<close>

definition is_base36 :: "char \<Rightarrow> bool" where
  "is_base36 c = (c \<in> set ''0123456789abcdefghijklmnopqrstuvwxyz'')"

definition is_upper_base36 :: "char \<Rightarrow> bool" where
  "is_upper_base36 c = (c \<in> set ''0123456789ABCDEFGHIJKLMNOPQRSTUVWXYZ'')"

definition random_text :: "string \<Rightarrow> bool" where
  "random_text r =
     (r = ''0'' \<or> (take 2 r = ''0.'' \<and> drop 2 r \<noteq> [] \<and> list_all is_base36 (drop 2 r)))"

section \<open>JSON values\<close>

text \<open>
  What \<open>JSON.parse\<close> returns for a field of a request body or for a value in the
  license file. A number is represented by the text JavaScript prints for it (\<open>5\<close>,
  \<open>1.5\<close>, \<open>Infinity\<close> for the overflowing literal \<open>1e999\<close>; \<open>0\<close> also for \<open>-0\<close>), an
  object by its own properties in order.
\<close>

datatype json =
    JNull
  | JBool bool
  | JNumber string
  | JString string
  | JArray "json list"
  | JObject "(string \<times> json) list"

text \<open>Truthiness of a value, and \<open>!v\<close> for a field that may be missing.\<close>

fun truthy :: "json \<Rightarrow> bool" where
  "truthy JNull = False"
| "truthy (JBool b) = b"
| "truthy (JNumber t) = (t \<noteq> ''0'' \<and> t \<noteq> ''NaN'')"
| "truthy (JString s) = (s \<noteq> [])"
| "truthy (JArray xs) = True"
| "truthy (JObject kvs) = True"

definition falsy :: "json option \<Rightarrow> bool" where
  "falsy v = (case v of None \<Rightarrow> True | Some x \<Rightarrow> \<not> truthy x)"

text \<open>
  Conversion to a string, as a template literal and a property access do it; \<open>None\<close>
  is the \<open>TypeError\<close> thrown for an object whose own \<open>toString\<close> property hides the
  inherited method (a parsed value is never callable, and the inherited \<open>valueOf\<close>
  returns the object). An array joins its elements with commas, \<open>null\<close> elements
  giving the empty string.
\<close>

fun join :: "string list \<Rightarrow> string" where
  "join [] = []"
| "join [x] = x"
| "join (x # y # ys) = x @ '','' @ join (y # ys)"

fun toStr :: "json \<Rightarrow> string option" where
  "toStr JNull = Some ''null''"
| "toStr (JBool b) = Some (if b then ''true'' else ''false'')"
| "toStr (JNumber t) = Some t"
| "toStr (JString s) = Some s"
| "toStr (JArray xs) =
     map_option join (those (map (\<lambda>x. if x = JNull then Some [] else toStr x) xs))"
| "toStr (JObject kvs) =
     (if ''toString'' \<in> fst ` set kvs then None else Some ''[object Object]'')"

text \<open>
  \<open>JSON.parse(JSON.stringify(v))\<close> for a value \<open>v\<close> that \<open>JSON.parse\<close> returned: a
  number that is not finite is written as \<open>null\<close>, everything else comes back as it
  was.
\<close>

primrec roundtrip :: "json \<Rightarrow> json" where
  "roundtrip JNull = JNull"
| "roundtrip (JBool b) = JBool b"
| "roundtrip (JNumber t) =
     (if t = ''Infinity'' \<or> t = ''-Infinity'' \<or> t = ''NaN'' then JNull else JNumber t)"
| "roundtrip (JString s) = JString s"
| "roundtrip (JArray xs) = JArray (map roundtrip xs)"
| "roundtrip (JObject kvs) = JObject (map (map_prod id roundtrip) kvs)"

text \<open>
  \<open>a === b\<close> for two values that are not the same object: primitives of one type
  with one value.
\<close>

fun prim_eq :: "json \<Rightarrow> json \<Rightarrow> bool" where
  "prim_eq JNull JNull = True"
| "prim_eq (JBool a) (JBool b) = (a = b)"
| "prim_eq (JNumber a) (JNumber b) = (a = b \<and> a \<noteq> ''NaN'')"
| "prim_eq (JString a) (JString b) = (a = b)"
| "prim_eq a b = False"

section \<open>License records, requests and responses\<close>

text \<open>
  A license record has the fields both servers write; the license key is the key
  under which the store holds the record. The file-backed server keeps whatever
  JSON value the request gave as \<open>deviceId\<close> and writes dates as ISO strings; the
  schema of the document store casts \<open>deviceId\<close> to a string and keeps dates as the
  milliseconds of the clock. \<open>deviceId\<close> and \<open>activationDate\<close> are \<open>None\<close> while the
  record has no such property (in the document store: while it is \<open>null\<close> or unset).
\<close>

record ('d, 't) license =
  product :: string
  deviceId :: "'d option"
  activated :: bool
  activationDate :: "'t option"
  createdAt :: 't

type_synonym file_license = "(json, string) license"
type_synonym document = "(string, nat) license"
type_synonym licenses = "string \<rightharpoonup> file_license"
type_synonym collection = "string \<rightharpoonup> document"

text \<open>The JSON bodies the handlers send, by their shape.\<close>

datatype body =
    Error string
  | ErrorMessage string string
  | ErrorDetails string string "nat option"
  | Status string string
  | LicenseKey string
  | TemporaryKey string string
  | Licenses licenses

type_synonym response = "nat \<times> body"

section \<open>The file-backed server\<close>

text \<open>
  The license file either cannot be read or parsed, or holds the text that
  \<open>JSON.stringify\<close> writes for a mapping of license records; \<open>getLicenses\<close> parses
  that text.
\<close>

datatype disk = Unreadable | Json licenses

definition reparse :: "file_license \<Rightarrow> file_license" where
  "reparse r = r\<lparr>deviceId := map_option roundtrip (deviceId r)\<rparr>"

definition getLicenses :: "disk \<Rightarrow> licenses" where
  "getLicenses d =
     (case d of
        Json licenses \<Rightarrow> (\<lambda>k. map_option reparse (licenses k))
      | Unreadable \<Rightarrow> Map.empty)"

text \<open>
  \<open>saveLicenses\<close> returns whether \<open>fs.writeFileSync\<close> succeeded; \<open>writable\<close> says
  whether it will. A failed write is taken to leave the file as it was.
\<close>

definition saveLicenses :: "bool \<Rightarrow> licenses \<Rightarrow> disk \<Rightarrow> bool \<times> disk" where
  "saveLicenses writable licenses d = (if writable then (True, Json licenses) else (False, d))"

text \<open>
  \<open>getLicenses\<close> returns a plain object, so \<open>licenses[licenseKey]\<close> is the object's
  own property when it has one, and otherwise what the object inherits from
  \<open>Object.prototype\<close>: for eleven names a built-in function, for \<open>__proto__\<close> the
  prototype object itself, all of them objects that live as long as the process.

  The activation handler is the only code that writes properties of such an object,
  and it writes \<open>activated = true\<close>, \<open>deviceId\<close> and \<open>activationDate\<close> together. The
  runtime state \<open>builtins\<close> maps the name under which a built-in object is inherited
  to the device and date written on it, if any. Once they are written on
  \<open>Object.prototype\<close> (the name \<open>__proto__\<close>), every object inherits the three
  properties, the parsed license file and the parsed request body included.
\<close>

definition inherited_names :: "string list" where
  "inherited_names =
     [''constructor'', ''__defineGetter__'', ''__defineSetter__'', ''hasOwnProperty'',
      ''__lookupGetter__'', ''__lookupSetter__'', ''isPrototypeOf'',
      ''propertyIsEnumerable'', ''toString'', ''valueOf'', ''__proto__'',
      ''toLocaleString'']"

type_synonym builtins = "string \<rightharpoonup> json \<times> string"

text \<open>
  A \<open>deviceId\<close> is a value of its own (parsed from a body or from the file, or kept
  on a built-in function), or the very value that \<open>Object.prototype.deviceId\<close> holds.
  When that value is an object, it can itself be reached as \<open>licenses["deviceId"]\<close>
  and be written by the activation handler: \<open>device_object\<close> is the device and date
  written on it, if any.
\<close>

datatype devref = Own json | Proto

record file_server =
  disk :: disk
  builtins :: builtins
  device_object :: "(devref \<times> string) option"

definition file_init :: file_server where
  "file_init = \<lparr>disk = Json Map.empty, builtins = Map.empty, device_object = None\<rparr>"

text \<open>The value behind a reference (for \<open>Proto\<close> while the prototype has one).\<close>

definition deref :: "file_server \<Rightarrow> devref \<Rightarrow> json" where
  "deref s d =
     (case d of
        Own v \<Rightarrow> v
      | Proto \<Rightarrow> (case builtins s ''__proto__'' of Some (p, t) \<Rightarrow> p | None \<Rightarrow> JNull))"

text \<open>
  \<open>const { licenseKey, deviceId } = req.body\<close>: a field the body lacks is read from
  \<open>Object.prototype\<close>, where only \<open>deviceId\<close> can have been written.
\<close>

definition body_deviceId :: "file_server \<Rightarrow> json option \<Rightarrow> devref option" where
  "body_deviceId s device =
     (case device of
        Some v \<Rightarrow> Some (Own v)
      | None \<Rightarrow> (case builtins s ''__proto__'' of Some b \<Rightarrow> Some Proto | None \<Rightarrow> None))"

text \<open>
  \<open>!d\<close> and the text of \<open>${d}\<close> for a \<open>deviceId\<close> that may be \<open>undefined\<close>. The
  properties that the handler writes on an object do not change either.
\<close>

definition falsy_ref :: "file_server \<Rightarrow> devref option \<Rightarrow> bool" where
  "falsy_ref s d = (case d of None \<Rightarrow> True | Some x \<Rightarrow> \<not> truthy (deref s x))"

definition text_ref :: "file_server \<Rightarrow> devref option \<Rightarrow> string option" where
  "text_ref s d = (case d of None \<Rightarrow> Some ''undefined'' | Some x \<Rightarrow> toStr (deref s x))"

definition text_field :: "json option \<Rightarrow> string option" where
  "text_field v = (case v of None \<Rightarrow> Some ''undefined'' | Some x \<Rightarrow> toStr x)"

text \<open>
  \<open>a !== b\<close> is the negation of \<open>strict_eq\<close>: two references to the prototype's
  value are the same object (or the same primitive), anything else is compared as
  two values that are not the same object.
\<close>

definition strict_eq :: "file_server \<Rightarrow> devref option \<Rightarrow> devref option \<Rightarrow> bool" where
  "strict_eq s a b =
     (case (a, b) of
        (None, None) \<Rightarrow> True
      | (Some Proto, Some Proto) \<Rightarrow>
          (case deref s Proto of
             JArray xs \<Rightarrow> True
           | JObject kvs \<Rightarrow> True
           | p \<Rightarrow> prim_eq p p)
      | (Some x, Some y) \<Rightarrow> prim_eq (deref s x) (deref s y)
      | _ \<Rightarrow> False)"

text \<open>
  What \<open>licenses[licenseKey]\<close> is when it is truthy: a record of the file, a built-in
  object, one of the three inherited properties when it is a primitive or an array
  (\<open>Primitive\<close>), or the object that \<open>Object.prototype.deviceId\<close> holds
  (\<open>DeviceObject\<close>); \<open>Undefined\<close> when it is \<open>undefined\<close> or falsy.
\<close>

datatype target = Record file_license | Builtin string | Primitive | DeviceObject | Undefined

definition lookup :: "file_server \<Rightarrow> licenses \<Rightarrow> string \<Rightarrow> target" where
  "lookup s licenses licenseKey =
     (case licenses licenseKey of
        Some r \<Rightarrow> Record r
      | None \<Rightarrow>
          if licenseKey \<in> set inherited_names then Builtin licenseKey
          else
            (case builtins s ''__proto__'' of
               None \<Rightarrow> Undefined
             | Some (p, t) \<Rightarrow>
                 if licenseKey = ''activated'' then Primitive
                 else if licenseKey = ''activationDate''
                 then (if t = [] then Undefined else Primitive)
                 else if licenseKey = ''deviceId''
                 then (case p of
                         JObject kvs \<Rightarrow> DeviceObject
                       | _ \<Rightarrow> if truthy p then Primitive else Undefined)
                 else Undefined))"

text \<open>
  \<open>licenses[licenseKey].activated\<close> (its truthiness) and
  \<open>licenses[licenseKey].deviceId\<close>: the target's own property, or else the one
  inherited from \<open>Object.prototype\<close>.
\<close>

definition polluted :: "file_server \<Rightarrow> bool" where
  "polluted s = (builtins s ''__proto__'' \<noteq> None)"

definition get_activated :: "file_server \<Rightarrow> target \<Rightarrow> bool" where
  "get_activated s t =
     (case t of
        Record r \<Rightarrow> activated r
      | Builtin n \<Rightarrow> builtins s n \<noteq> None \<or> polluted s
      | Primitive \<Rightarrow> polluted s
      | DeviceObject \<Rightarrow>
          (case device_object s of
             Some w \<Rightarrow> True
           | None \<Rightarrow>
               (case deref s Proto of
                  JObject kvs \<Rightarrow>
                    (case map_of kvs ''activated'' of Some a \<Rightarrow> truthy a | None \<Rightarrow> polluted s)
                | _ \<Rightarrow> polluted s))
      | Undefined \<Rightarrow> False)"

definition inherited_deviceId :: "file_server \<Rightarrow> devref option" where
  "inherited_deviceId s = (if polluted s then Some Proto else None)"

definition get_deviceId :: "file_server \<Rightarrow> target \<Rightarrow> devref option" where
  "get_deviceId s t =
     (case t of
        Record r \<Rightarrow>
          (case deviceId r of Some v \<Rightarrow> Some (Own v) | None \<Rightarrow> inherited_deviceId s)
      | Builtin n \<Rightarrow>
          (case builtins s n of
             Some b \<Rightarrow> if n = ''__proto__'' then Some Proto else Some (Own (fst b))
           | None \<Rightarrow> inherited_deviceId s)
      | Primitive \<Rightarrow> inherited_deviceId s
      | DeviceObject \<Rightarrow>
          (case device_object s of
             Some w \<Rightarrow> Some (fst w)
           | None \<Rightarrow>
               (case deref s Proto of
                  JObject kvs \<Rightarrow>
                    (case map_of kvs ''deviceId'' of
                       Some v \<Rightarrow> Some (Own v)
                     | None \<Rightarrow> inherited_deviceId s)
                | _ \<Rightarrow> inherited_deviceId s))
      | Undefined \<Rightarrow> None)"

text \<open>
  The value that \<open>JSON.stringify\<close> writes for a record's \<open>deviceId\<close>; \<open>None\<close> when it
  throws because the prototype's object has been made its own \<open>deviceId\<close>.
\<close>

fun assign :: "string \<Rightarrow> json \<Rightarrow> (string \<times> json) list \<Rightarrow> (string \<times> json) list" where
  "assign k v [] = [(k, v)]"
| "assign k v (p # ps) = (if fst p = k then (k, v) # ps else p # assign k v ps)"

definition persisted :: "file_server \<Rightarrow> devref \<Rightarrow> json option" where
  "persisted s d =
     (case d of
        Own v \<Rightarrow> Some v
      | Proto \<Rightarrow>
          (case (deref s Proto, device_object s) of
             (JObject kvs, Some (Proto, t)) \<Rightarrow> None
           | (JObject kvs, Some (Own v, t)) \<Rightarrow>
               Some (JObject (assign ''activationDate'' (JString t)
                                (assign ''deviceId'' v
                                   (assign ''activated'' (JBool True) kvs))))
           | (p, w) \<Rightarrow> Some p))"

text \<open>The body of the answer 500 when a conversion to a string throws.\<close>

definition type_error :: string where
  "type_error = ''Cannot convert object to primitive value''"

text \<open>\<open>GET /api/generate-test-license\<close>, the operation Issue.\<close>

definition file_generate_test_license ::
  "entropy \<Rightarrow> string \<Rightarrow> bool \<Rightarrow> file_server \<Rightarrow> response \<times> file_server" where
  "file_generate_test_license e now writable s =
     (let licenseKey = generateLicenseKey ''TEST'' e;
          licenses = (getLicenses (disk s))(licenseKey \<mapsto>
            \<lparr>product = ''test_product'', deviceId = None, activated = False,
             activationDate = None, createdAt = now\<rparr>);
          (saved, d) = saveLicenses writable licenses (disk s)
      in if saved then ((201, LicenseKey licenseKey), s\<lparr>disk := d\<rparr>)
         else ((500, ErrorMessage ''Failed to generate license'' ''Failed to save license data''), s))"

text \<open>
  The end of the activation handler: the three assignments, then \<open>saveLicenses\<close>.
  The assignments change the parsed record, which reaches the file only through
  \<open>saveLicenses\<close>, or an object of the runtime, which is changed at once whatever
  \<open>saveLicenses\<close> does; on a primitive they change nothing. The result says whether
  \<open>saveLicenses\<close> returned true.
\<close>

definition assign_and_save ::
  "string \<Rightarrow> bool \<Rightarrow> string \<Rightarrow> devref \<Rightarrow> target \<Rightarrow> file_server \<Rightarrow> bool \<times> file_server" where
  "assign_and_save now writable k d t s =
     (let licenses = getLicenses (disk s);
          (writes, s') =
            (case t of
               Record r \<Rightarrow>
                 (map_option
                    (\<lambda>v. licenses(k \<mapsto> r\<lparr>activated := True, deviceId := Some v,
                                              activationDate := Some now\<rparr>))
                    (persisted s d), s)
             | Builtin n \<Rightarrow>
                 (Some licenses, s\<lparr>builtins := (builtins s)(n \<mapsto> (deref s d, now))\<rparr>)
             | DeviceObject \<Rightarrow> (Some licenses, s\<lparr>device_object := Some (d, now)\<rparr>)
             | _ \<Rightarrow> (Some licenses, s));
          (saved, dk) =
            (case writes of
               Some licenses' \<Rightarrow> saveLicenses writable licenses' (disk s)
             | None \<Rightarrow> (False, disk s))
      in (saved, s'\<lparr>disk := dk\<rparr>))"

text \<open>
  \<open>POST /api/activate-license\<close>, the operation Activate. The first log line
  converts both fields to strings before they are validated.
\<close>

definition file_activate_license ::
  "string \<Rightarrow> bool \<Rightarrow> json option \<Rightarrow> json option \<Rightarrow> file_server \<Rightarrow> response \<times> file_server" where
  "file_activate_license now writable licenseKey device s =
     (let dev = body_deviceId s device in
      if text_field licenseKey = None \<or> text_ref s dev = None
      then ((500, ErrorMessage ''Failed to activate license'' type_error), s)
      else if falsy licenseKey \<or> falsy_ref s dev
      then ((400, Error ''License key and device ID are required''), s)
      else
        let k = the (text_field licenseKey); d = the dev;
            t = lookup s (getLicenses (disk s)) k
        in if t = Undefined then ((404, Error ''Invalid license key''), s)
           else if get_activated s t then
             (if \<not> strict_eq s (get_deviceId s t) (Some d)
              then (if text_ref s (get_deviceId s t) = None
                    then ((500, ErrorMessage ''Failed to activate license'' type_error), s)
                    else ((403, Error ''License key is already activated on another device''), s))
              else ((200, Status ''activated'' ''License is already activated for this device''), s))
           else
             let (saved, s') = assign_and_save now writable k d t s
             in if saved
                then ((200, Status ''activated'' ''License activated successfully''), s')
                else ((500, ErrorMessage ''Failed to activate license''
                              ''Failed to save activation data''), s'))"

text \<open>\<open>POST /api/verify-license\<close>, the operation Verify.\<close>

definition file_verify_license ::
  "json option \<Rightarrow> json option \<Rightarrow> file_server \<Rightarrow> response \<times> file_server" where
  "file_verify_license licenseKey device s =
     (let dev = body_deviceId s device in
      if text_field licenseKey = None \<or> text_ref s dev = None
      then ((500, ErrorMessage ''Failed to verify license'' type_error), s)
      else if falsy licenseKey \<or> falsy_ref s dev
      then ((400, Error ''License key and device ID are required''), s)
      else
        let k = the (text_field licenseKey); d = the dev;
            licenses = getLicenses (disk s);
            t = lookup s licenses k
        in if t = Undefined then ((404, Error ''Invalid license key''), s)
           else if \<not> get_activated s t
           then ((403, Error ''License key is not activated''), s)
           else if \<not> strict_eq s (get_deviceId s t) (Some d)
           then (if text_ref s (get_deviceId s t) = None
                 then ((500, ErrorMessage ''Failed to verify license'' type_error), s)
                 else ((403, Error ''License is not activated for this device''), s))
           else ((200, Status ''valid'' ''License is valid''), s))"

text \<open>
  \<open>GET /api/admin/licenses\<close>. \<open>getLicenses\<close> catches every error of reading and
  parsing, so nothing in the handler's \<open>try\<close> block throws.
\<close>

definition file_admin_licenses :: "file_server \<Rightarrow> response \<times> file_server" where
  "file_admin_licenses s = ((200, Licenses (getLicenses (disk s))), s)"

section \<open>The document-store server\<close>

text \<open>
  \<open>src/server.js\<close> holds two versions of this server one after the other; the model
  follows the later, complete one, whose handlers know the duplicate-key error.
  The collection holds one document for each license key, the schema's unique index
  on \<open>licenseKey\<close> allowing no two. A call of the driver either answers or rejects
  with an error, of which the handlers read the message and the code.
\<close>

datatype db_error = DbError (message: string) (code: "nat option")

text \<open>
  What the environment does during one request: the connection's \<open>readyState\<close>, the
  error (if any) with which each call of the driver rejects for a reason of its own,
  and the readings of the clock. The object-document mapper is not part of the
  repository, so what it does with a value that is not a string is an input too:
  \<open>query_answer\<close> is the key of the document that \<open>findOne\<close> returns for a
  \<open>licenseKey\<close> that is not a string (a number it casts, an object it reads as query
  operators), if it returns one, and \<open>cast_answer\<close> is the string to which the schema
  casts a \<open>deviceId\<close> that is not a string, or the error with which \<open>save\<close> then
  rejects. For strings the query is an exact match and the cast changes nothing.
\<close>

record db_env =
  readyState :: nat
  find_fault :: "db_error option"
  query_answer :: "string option"
  cast_answer :: "db_error + string"
  save_fault :: "db_error option"
  retry_fault :: "db_error option"
  clock :: nat
  retry_clock :: nat
  retry_created :: nat

definition findOne :: "db_env \<Rightarrow> collection \<Rightarrow> json \<Rightarrow> db_error + (string \<times> document) option" where
  "findOne env c licenseKey =
     (case find_fault env of
        Some err \<Rightarrow> Inl err
      | None \<Rightarrow>
          (case licenseKey of
             JString k \<Rightarrow> Inr (map_option (Pair k) (c k))
           | _ \<Rightarrow>
               (case query_answer env of
                  None \<Rightarrow> Inr None
                | Some k \<Rightarrow> Inr (map_option (Pair k) (c k)))))"

definition cast_String :: "db_env \<Rightarrow> json \<Rightarrow> db_error + string" where
  "cast_String env v = (case v of JString s \<Rightarrow> Inr s | _ \<Rightarrow> cast_answer env)"

text \<open>\<open>save\<close> of a new document: the unique index rejects a key that is present.\<close>

definition save_new :: "db_error option \<Rightarrow> collection \<Rightarrow> string \<Rightarrow> document \<Rightarrow> db_error + collection" where
  "save_new fault c licenseKey doc =
     (case fault of
        Some err \<Rightarrow> Inl err
      | None \<Rightarrow>
          if licenseKey \<in> dom c
          then Inl (DbError ''E11000 duplicate key error'' (Some 11000))
          else Inr (c(licenseKey \<mapsto> doc)))"

text \<open>\<open>save\<close> of a document that \<open>findOne\<close> returned.\<close>

definition save_found :: "db_error option \<Rightarrow> collection \<Rightarrow> string \<Rightarrow> document \<Rightarrow> db_error + collection" where
  "save_found fault c licenseKey doc =
     (case fault of Some err \<Rightarrow> Inl err | None \<Rightarrow> Inr (c(licenseKey \<mapsto> doc)))"

text \<open>\<open>new License({licenseKey, product: 'test_product'})\<close> with the schema's defaults.\<close>

definition new_License :: "nat \<Rightarrow> document" where
  "new_License now =
     \<lparr>product = ''test_product'', deviceId = None, activated = False,
      activationDate = None, createdAt = now\<rparr>"

text \<open>
  \<open>n.toString(36)\<close> for a natural number, and \<open>s.substring(a)\<close>, which reads a
  negative \<open>a\<close> as 0.
\<close>

definition digit36 :: "nat \<Rightarrow> char" where
  "digit36 n = ''0123456789abcdefghijklmnopqrstuvwxyz'' ! n"

fun toString36 :: "nat \<Rightarrow> string" where
  "toString36 n =
     (if n < 36 then [digit36 n] else toString36 (n div 36) @ [digit36 (n mod 36)])"

declare toString36.simps [simp del]

definition substring_from :: "string \<Rightarrow> int \<Rightarrow> string" where
  "substring_from s a = drop (nat (max 0 a)) s"

text \<open>
  \<open>GET /api/generate-test-license\<close>, the operation Issue; \<open>e\<close> is the entropy of the
  first key (or of the temporary one) and \<open>e'\<close> that of the key of the retry. The
  retry reads the clock once for the prefix of its key and once more, through the
  schema's default, for \<open>createdAt\<close>.
\<close>

definition db_generate_test_license ::
  "db_env \<Rightarrow> entropy \<Rightarrow> entropy \<Rightarrow> collection \<Rightarrow> response \<times> collection" where
  "db_generate_test_license env e e' c =
     (if readyState env \<noteq> 1
      then ((200, TemporaryKey (generateLicenseKey ''TEMP'' e)
                    ''Database not connected - this license is for testing only''), c)
      else
        let licenseKey = generateLicenseKey ''TEST'' e in
        case save_new (save_fault env) c licenseKey (new_License (clock env)) of
          Inr c' \<Rightarrow> ((201, LicenseKey licenseKey), c')
        | Inl saveError \<Rightarrow>
            if code saveError = Some 11000
            then
              let newKey = generateLicenseKey
                    (''TEST-'' @ substring_from (toString36 (retry_clock env)) (- 4)) e'
              in (case save_new (retry_fault env) c newKey (new_License (retry_created env)) of
                    Inr c' \<Rightarrow> ((201, LicenseKey newKey), c')
                  | Inl err \<Rightarrow>
                      ((500, ErrorMessage ''Failed to generate test license'' (message err)), c))
            else ((500, ErrorDetails ''Failed to save license'' (message saveError)
                          (code saveError)), c))"

text \<open>
  \<open>license.deviceId !== deviceId\<close> for the document's string (or \<open>null\<close>) and the
  value of the request.
\<close>

definition same_device :: "string option \<Rightarrow> json \<Rightarrow> bool" where
  "same_device stored v =
     (case (stored, v) of
        (Some a, JString b) \<Rightarrow> a = b
      | (None, JNull) \<Rightarrow> True
      | _ \<Rightarrow> False)"

text \<open>
  \<open>POST /api/activate-license\<close>, the operation Activate. Here the fields are
  validated before the log line converts them. A \<open>deviceId\<close> that the schema cannot
  cast makes \<open>save\<close> reject.
\<close>

definition db_activate_license ::
  "db_env \<Rightarrow> json option \<Rightarrow> json option \<Rightarrow> collection \<Rightarrow> response \<times> collection" where
  "db_activate_license env licenseKey device c =
     (if falsy licenseKey \<or> falsy device
      then ((400, Error ''License key and device ID are required''), c)
      else if text_field licenseKey = None \<or> text_field device = None
      then ((500, ErrorMessage ''Failed to activate license'' type_error), c)
      else
        let d = the device in
        case findOne env c (the licenseKey) of
          Inl err \<Rightarrow> ((500, ErrorMessage ''Failed to activate license'' (message err)), c)
        | Inr None \<Rightarrow> ((404, Error ''Invalid license key''), c)
        | Inr (Some (k, license)) \<Rightarrow>
            if activated license then
              (if \<not> same_device (deviceId license) d
               then ((403, Error ''License key is already activated on another device''), c)
               else ((200, Status ''activated''
                             ''License is already activated for this device''), c))
            else
              (case cast_String env d of
                 Inl err \<Rightarrow>
                   ((500, ErrorMessage ''Failed to activate license'' (message err)), c)
               | Inr text \<Rightarrow>
                   (case save_found (save_fault env) c k
                           (license\<lparr>activated := True, deviceId := Some text,
                                    activationDate := Some (clock env)\<rparr>) of
                      Inl err \<Rightarrow>
                        ((500, ErrorMessage ''Failed to activate license'' (message err)), c)
                    | Inr c' \<Rightarrow>
                        ((200, Status ''activated'' ''License activated successfully''), c'))))"

text \<open>\<open>POST /api/verify-license\<close>, the operation Verify.\<close>

definition db_verify_license ::
  "db_env \<Rightarrow> json option \<Rightarrow> json option \<Rightarrow> collection \<Rightarrow> response \<times> collection" where
  "db_verify_license env licenseKey device c =
     (if falsy licenseKey \<or> falsy device
      then ((400, Error ''License key and device ID are required''), c)
      else if text_field licenseKey = None \<or> text_field device = None
      then ((500, ErrorMessage ''Failed to verify license'' type_error), c)
      else
        case findOne env c (the licenseKey) of
          Inl err \<Rightarrow> ((500, ErrorMessage ''Failed to verify license'' (message err)), c)
        | Inr None \<Rightarrow> ((404, Error ''Invalid license key''), c)
        | Inr (Some (k, license)) \<Rightarrow>
            if \<not> activated license then ((403, Error ''License key is not activated''), c)
            else if \<not> same_device (deviceId license) (the device)
            then ((403, Error ''License is not activated for this device''), c)
            else ((200, Status ''valid'' ''License is valid''), c))"

section \<open>Sequences of operations\<close>

text \<open>
  An operation carries what the client sent and what the environment did while the
  server handled it. A state is reachable when a list of operations leads to it from
  the initial state: the empty license file of a fresh process, or the empty
  collection.
\<close>

datatype file_op =
    FIssue entropy string bool
  | FActivate string bool "json option" "json option"
  | FVerify "json option" "json option"

fun file_step :: "file_op \<Rightarrow> file_server \<Rightarrow> response \<times> file_server" where
  "file_step (FIssue e now writable) s = file_generate_test_license e now writable s"
| "file_step (FActivate now writable licenseKey device) s =
     file_activate_license now writable licenseKey device s"
| "file_step (FVerify licenseKey device) s = file_verify_license licenseKey device s"

fun file_run :: "file_op list \<Rightarrow> file_server \<Rightarrow> file_server" where
  "file_run [] s = s"
| "file_run (x # xs) s = file_run xs (snd (file_step x s))"

datatype db_op =
    DIssue db_env entropy entropy
  | DActivate db_env "json option" "json option"
  | DVerify db_env "json option" "json option"

fun db_step :: "db_op \<Rightarrow> collection \<Rightarrow> response \<times> collection" where
  "db_step (DIssue env e e') c = db_generate_test_license env e e' c"
| "db_step (DActivate env licenseKey device) c = db_activate_license env licenseKey device c"
| "db_step (DVerify env licenseKey device) c = db_verify_license env licenseKey device c"

fun db_run :: "db_op list \<Rightarrow> collection \<Rightarrow> collection" where
  "db_run [] c = c"
| "db_run (x # xs) c = db_run xs (snd (db_step x c))"

text \<open>
  Notions used to state properties of runs. A mapping of records is consistent when
  every record has a \<open>deviceId\<close> exactly when it is activated. An operation of the
  file-backed server issues the key \<open>k\<close> when it is an Issue whose generator returns
  \<open>k\<close>. A value is not finite when it is a number that \<open>JSON.stringify\<close> writes as
  \<open>null\<close>, and an operation sends such a value when it is an Activate whose
  \<open>deviceId\<close> is one.
\<close>

definition consistent :: "(string \<rightharpoonup> ('d, 't) license) \<Rightarrow> bool" where
  "consistent m = (\<forall>k r. m k = Some r \<longrightarrow> (deviceId r = None) = (\<not> activated r))"


definition nonfinite :: "json \<Rightarrow> bool" where
  "nonfinite v = (v = JNumber ''Infinity'' \<or> v = JNumber ''-Infinity'' \<or> v = JNumber ''NaN'')"

fun sends_nonfinite :: "file_op \<Rightarrow> bool" where
  "sends_nonfinite (FIssue e now writable) = False"
| "sends_nonfinite (FActivate now writable licenseKey device) =
     (case device of Some v \<Rightarrow> nonfinite v | None \<Rightarrow> False)"
| "sends_nonfinite (FVerify licenseKey device) = False"

text \<open>
  A state of the file-backed server holds no null device when no record of the file
  has \<open>null\<close> as its \<open>deviceId\<close> and the value that \<open>Object.prototype.deviceId\<close> holds,
  if any, is not one that \<open>JSON.stringify\<close> writes as \<open>null\<close>.
\<close>

definition no_null_device :: "file_server \<Rightarrow> bool" where
  "no_null_device s =
     ((\<forall>k r. getLicenses (disk s) k = Some r \<longrightarrow> deviceId r \<noteq> Some JNull) \<and>
      (\<forall>p t. builtins s ''__proto__'' = Some (p, t) \<longrightarrow> p \<noteq> JNull \<and> \<not> nonfinite p))"

section \<open>The format of generated keys\<close>

lemma upper_hex_digits:
  "list_all (\<lambda>n. is_upper_hex (upper_char (hex_digit n))) [0..<16]"
  by (simp add: upt_rec is_upper_hex_def upper_char_def hex_digit_def)

lemma upper_hex_digit: "n < 16 \<Longrightarrow> is_upper_hex (upper_char (hex_digit n))"
  using upper_hex_digits by (simp add: list_all_iff)

lemma upper_hex_byte: "list_all is_upper_hex (toUpperCase (hex_byte b))"
proof -
  have "unat b < 2 ^ LENGTH(8)" by (rule unsigned_less)
  then have "unat b < 256" by simp
  then have "unat b div 16 < 16" by simp
  then show ?thesis
    by (simp add: toUpperCase_def hex_byte_def upper_hex_digit)
qed

lemma upper_hex_buffer: "list_all is_upper_hex (toUpperCase (toString_hex bs))"
  using upper_hex_byte by (induction bs) (simp_all add: toString_hex_def toUpperCase_def)

lemma length_hex_buffer: "length (toUpperCase (toString_hex bs)) = 2 * length bs"
  by (induction bs) (simp_all add: toString_hex_def toUpperCase_def hex_byte_def)

lemma hex8_section:
  assumes "list_all is_upper_hex s" and "start + 8 \<le> length s"
  shows "hex8 (substr s start 8)"
  using assms
  by (auto simp: hex8_def substr_def list_all_iff dest: in_set_takeD in_set_dropD)

lemma key_format_sections:
  assumes "hex8 a" and "hex8 b" and "hex8 c"
  shows "key_format prefix (prefix @ ''-'' @ a @ ''-'' @ b @ ''-'' @ c)"
  using assms by (simp add: key_format_def hex8_def)

lemma random_key_format:
  assumes "12 \<le> length bs"
  shows "key_format prefix (generateLicenseKey prefix (RandomBytes bs))"
  unfolding generateLicenseKey_def entropy.case Let_def
  using assms
  by (intro key_format_sections hex8_section upper_hex_buffer) (simp_all add: length_hex_buffer)

lemma fallback_key:
  "generateLicenseKey prefix (EntropyError r) = prefix @ ''-'' @ toUpperCase (take 8 (drop 2 r))"
  by (simp add: generateLicenseKey_def substring_def)

lemma upper_base36_digits:
  "list_all (\<lambda>c. is_upper_base36 (upper_char c)) ''0123456789abcdefghijklmnopqrstuvwxyz''"
  by code_simp

lemma upper_base36: "is_base36 c \<Longrightarrow> is_upper_base36 (upper_char c)"
  using upper_base36_digits by (simp only: list_all_iff is_base36_def)

lemma fallback_characters:
  assumes "random_text r"
  shows "list_all is_upper_base36 (toUpperCase (take 8 (drop 2 r)))"
proof -
  have "list_all is_base36 (drop 2 r)"
    using assms by (auto simp: random_text_def)
  then have "list_all is_base36 (take 8 (drop 2 r))"
    by (auto simp: list_all_iff dest: in_set_takeD)
  then show ?thesis
    by (auto simp: toUpperCase_def list_all_iff upper_base36)
qed

text \<open>
  Claim C6, amended. When the entropy source returns its buffer (of 12 bytes or more),
  the key is the given prefix followed by three groups of a hyphen and eight
  uppercase hexadecimal digits. The key of the fallback, taken when the entropy
  source throws, is the prefix, one hyphen and the first fraction digits, at most
  eight, of the base-36 text of \<open>Math.random()\<close> in upper case, so characters from
  \<open>0-9A-Z\<close>; it never has the format.
\<close>

theorem generated_key_format:
  "(12 \<le> length bs \<longrightarrow> key_format prefix (generateLicenseKey prefix (RandomBytes bs))) \<and>
   generateLicenseKey prefix (EntropyError r) =
     prefix @ ''-'' @ toUpperCase (take 8 (drop 2 r)) \<and>
   length (toUpperCase (take 8 (drop 2 r))) \<le> 8 \<and>
   (random_text r \<longrightarrow> list_all is_upper_base36 (toUpperCase (take 8 (drop 2 r)))) \<and>
   \<not> key_format prefix (generateLicenseKey prefix (EntropyError r))"
proof (intro conjI impI)
  assume "12 \<le> length bs"
  then show "key_format prefix (generateLicenseKey prefix (RandomBytes bs))"
    by (rule random_key_format)
next
  show "generateLicenseKey prefix (EntropyError r) =
          prefix @ ''-'' @ toUpperCase (take 8 (drop 2 r))"
    by (rule fallback_key)
next
  show "length (toUpperCase (take 8 (drop 2 r))) \<le> 8"
    by (simp add: toUpperCase_def)
next
  assume "random_text r"
  then show "list_all is_upper_base36 (toUpperCase (take 8 (drop 2 r)))"
    by (rule fallback_characters)
next
  have "length (drop (length prefix) (generateLicenseKey prefix (EntropyError r))) \<le> 9"
    by (simp add: fallback_key toUpperCase_def)
  then show "\<not> key_format prefix (generateLicenseKey prefix (EntropyError r))"
    by (simp add: key_format_def Let_def)
qed

theorem generated_key_format_witness:
  "key_format ''TEST''
     (generateLicenseKey ''TEST''
        (RandomBytes [0xAB, 0x01, 0xFF, 0x10, 0x00, 0x7E, 0x5C, 0x33, 0x01, 0x02, 0x03, 0x9C])) \<and>
   random_text ''0.4fzyo82mvyr'' \<and>
   generateLicenseKey ''TEST'' (EntropyError ''0.4fzyo82mvyr'') = ''TEST-4FZYO82M'' \<and>
   list_all is_upper_base36 ''4FZYO82M'' \<and>
   \<not> key_format ''TEST'' (generateLicenseKey ''TEST'' (EntropyError ''0.4fzyo82mvyr''))"
proof -
  have up: "toUpperCase ''4fzyo82m'' = ''4FZYO82M''"
    by (simp add: toUpperCase_def upper_char_def)
  have rt: "random_text ''0.4fzyo82mvyr''"
    by (simp add: random_text_def is_base36_def)
  have len: "(12::nat) \<le> length [0xAB, 0x01, 0xFF, 0x10, 0x00, 0x7E, 0x5C, 0x33, 0x01, 0x02, 0x03, 0x9C :: 8 word]"
    by simp
  note th = generated_key_format
    [of "[0xAB, 0x01, 0xFF, 0x10, 0x00, 0x7E, 0x5C, 0x33, 0x01, 0x02, 0x03, 0x9C]"
        "''TEST''" "''0.4fzyo82mvyr''"]
  from th len rt show ?thesis by (auto simp: up)
qed

text \<open>
  Claim C6 as stated fails: with \<open>Math.random()\<close> returning 0.5, whose base-36 text
  is \<open>0.i\<close>, the fallback returns \<open>TEST-I\<close>.
\<close>

theorem fallback_key_counterexample:
  "generateLicenseKey ''TEST'' (EntropyError ''0.i'') = ''TEST-I'' \<and>
   \<not> key_format ''TEST'' (generateLicenseKey ''TEST'' (EntropyError ''0.i''))"
  by (simp add: generateLicenseKey_def toUpperCase_def substring_def upper_char_def
      key_format_def)

section \<open>Facts about the handlers\<close>

subsection \<open>Values, and the license file\<close>

lemma roundtrip_idem: "roundtrip (roundtrip v) = roundtrip v"
  by (induction v) (auto simp: map_prod_def split: prod.splits)

lemma roundtrip_null: "roundtrip v = JNull \<longleftrightarrow> v = JNull \<or> nonfinite v"
  by (cases v) (auto simp: nonfinite_def)

lemma reparse_idem: "reparse (reparse r) = reparse r"
  by (cases "deviceId r") (simp_all add: reparse_def roundtrip_idem)

lemma getLicenses_idem: "getLicenses (Json (getLicenses d)) = getLicenses d"
  by (cases d) (auto simp: getLicenses_def reparse_idem option.map_comp comp_def
      intro!: ext option.map_cong)

lemma getLicenses_update:
  "getLicenses (Json ((getLicenses d)(k \<mapsto> r))) = (getLicenses d)(k \<mapsto> reparse r)"
proof
  fix x
  have "getLicenses (Json (getLicenses d)) x = getLicenses d x"
    by (simp add: getLicenses_idem)
  then show "getLicenses (Json ((getLicenses d)(k \<mapsto> r))) x = ((getLicenses d)(k \<mapsto> reparse r)) x"
    by (simp add: getLicenses_def)
qed

lemma getLicenses_reparsed: "getLicenses d k = Some r \<Longrightarrow> reparse r = r"
  by (cases d) (auto simp: getLicenses_def reparse_idem)

lemma lookup_Some: "m k = Some r \<Longrightarrow> lookup s m k = Record r"
  by (simp add: lookup_def)


lemma generated_key_not_inherited: "generateLicenseKey ''TEST'' e \<notin> set inherited_names"
  by (cases e) (simp_all add: generateLicenseKey_def inherited_names_def Let_def)

lemma generated_key_undefined:
  "lookup s Map.empty (generateLicenseKey ''TEST'' e) = Undefined"
  using generated_key_not_inherited [of e]
  by (cases e) (simp_all add: lookup_def generateLicenseKey_def Let_def split: option.splits)

lemma generated_key_not_empty: "generateLicenseKey prefix e \<noteq> []"
  by (cases e) (simp_all add: generateLicenseKey_def Let_def)

lemma zero_key:
  "generateLicenseKey ''TEST'' (RandomBytes [0, 0, 0, 0, 0, 0, 0, 0, 0, 0, 0, 0]) =
   ''TEST-00000000-00000000-00000000''"
  by (simp add: generateLicenseKey_def toUpperCase_def toString_hex_def hex_byte_def
      hex_digit_def substr_def upper_char_def)

subsection \<open>What the activation handler changes\<close>

lemma persisted_Own: "persisted s (Own v) = Some v"
  by (simp add: persisted_def)

lemma assign_disk:
  "disk (snd (assign_and_save now writable k d t s)) = disk s \<or>
   disk (snd (assign_and_save now writable k d t s)) = Json (getLicenses (disk s)) \<or>
   (\<exists>r v. t = Record r \<and> persisted s d = Some v \<and>
      disk (snd (assign_and_save now writable k d t s)) =
        Json ((getLicenses (disk s))(k \<mapsto>
           r\<lparr>activated := True, deviceId := Some v, activationDate := Some now\<rparr>)))"
  by (cases t; cases "persisted s d"; cases writable)
     (simp_all add: assign_and_save_def saveLicenses_def Let_def)

lemma assign_builtins:
  "builtins (snd (assign_and_save now writable k d t s)) = builtins s \<or>
   (\<exists>n. t = Builtin n \<and>
      builtins (snd (assign_and_save now writable k d t s)) =
        (builtins s)(n \<mapsto> (deref s d, now)))"
  by (cases t; cases "persisted s d"; cases writable)
     (simp_all add: assign_and_save_def saveLicenses_def Let_def)

lemma file_activate_effect:
  "snd (file_activate_license now writable licenseKey device s) = s \<or>
   (\<exists>d t. body_deviceId s device = Some d \<and> \<not> falsy_ref s (Some d) \<and>
      t = lookup s (getLicenses (disk s)) (the (text_field licenseKey)) \<and>
      t \<noteq> Undefined \<and> \<not> get_activated s t \<and>
      snd (file_activate_license now writable licenseKey device s) =
        snd (assign_and_save now writable (the (text_field licenseKey)) d t s))"
proof (cases "body_deviceId s device")
  case None
  then show ?thesis
    by (simp add: file_activate_license_def falsy_ref_def Let_def)
next
  case (Some d)
  then show ?thesis
    by (auto simp: file_activate_license_def Let_def split: prod.splits)
qed

lemma file_verify_state: "snd (file_verify_license licenseKey device s) = s"
  by (simp add: file_verify_license_def Let_def)

lemma file_generate_disk:
  "disk (snd (file_generate_test_license e now writable s)) = disk s \<or>
   disk (snd (file_generate_test_license e now writable s)) =
     Json ((getLicenses (disk s))(generateLicenseKey ''TEST'' e \<mapsto>
        \<lparr>product = ''test_product'', deviceId = None, activated = False,
         activationDate = None, createdAt = now\<rparr>))"
  by (cases writable) (simp_all add: file_generate_test_license_def saveLicenses_def Let_def)

lemma file_generate_builtins:
  "builtins (snd (file_generate_test_license e now writable s)) = builtins s"
  by (cases writable) (simp_all add: file_generate_test_license_def saveLicenses_def Let_def)

subsection \<open>What keeps an activated record as it is\<close>




lemma db_generate_keeps:
  "c k = Some r \<Longrightarrow> snd (db_generate_test_license env e e' c) k = Some r"
  by (auto simp: db_generate_test_license_def save_new_def Let_def
        split: option.splits sum.splits if_splits)


lemma db_verify_state: "snd (db_verify_license env licenseKey device c) = c"
  by (auto simp: db_verify_license_def Let_def split: option.splits sum.splits)



subsection \<open>Every record has a device exactly when it is activated\<close>

lemma consistent_update:
  "consistent m \<Longrightarrow> (deviceId r = None) = (\<not> activated r) \<Longrightarrow> consistent (m(k \<mapsto> r))"
  by (simp add: consistent_def)

lemma file_activate_consistent:
  assumes "consistent (getLicenses (disk s))"
  shows "consistent (getLicenses (disk
           (snd (file_activate_license now writable licenseKey device s))))"
proof -
  let ?s' = "snd (file_activate_license now writable licenseKey device s)"
  from file_activate_effect [of now writable licenseKey device s]
  consider "?s' = s"
    | d k' t where "?s' = snd (assign_and_save now writable k' d t s)"
    by metis
  then show ?thesis
  proof cases
    case 1
    then show ?thesis using assms by simp
  next
    case (2 d k' t)
    from assign_disk [of now writable k' d t s]
    consider "disk ?s' = disk s" | "disk ?s' = Json (getLicenses (disk s))"
      | r' v where
          "disk ?s' = Json ((getLicenses (disk s))(k' \<mapsto>
                 r'\<lparr>activated := True, deviceId := Some v, activationDate := Some now\<rparr>))"
      using 2 by auto
    then show ?thesis
    proof cases
      case 1
      then show ?thesis using assms by simp
    next
      case 2
      then show ?thesis using assms by (simp add: getLicenses_idem)
    next
      case (3 r' v)
      then show ?thesis
        using assms by (simp add: getLicenses_update consistent_update reparse_def)
    qed
  qed
qed

lemma file_step_consistent:
  assumes "consistent (getLicenses (disk s))"
  shows "consistent (getLicenses (disk (snd (file_step x s))))"
proof (cases x)
  case (FIssue e now writable)
  then show ?thesis
    using assms file_generate_disk [of e now writable s]
    by (auto simp: getLicenses_update consistent_update reparse_def)
next
  case (FActivate now writable licenseKey device)
  then show ?thesis using assms by (simp add: file_activate_consistent)
next
  case (FVerify licenseKey device)
  then show ?thesis using assms by (simp add: file_verify_state)
qed

lemma file_run_consistent:
  "consistent (getLicenses (disk s)) \<Longrightarrow> consistent (getLicenses (disk (file_run xs s)))"
  by (induction xs arbitrary: s) (simp_all add: file_step_consistent)

lemma db_step_consistent:
  assumes "consistent c"
  shows "consistent (snd (db_step x c))"
proof (cases x)
  case (DIssue env e e')
  then show ?thesis using assms
    by (auto simp: db_generate_test_license_def save_new_def new_License_def Let_def
        consistent_def split: option.splits sum.splits if_splits)
next
  case (DActivate env licenseKey device)
  then show ?thesis using assms
    by (auto simp: db_activate_license_def save_found_def findOne_def Let_def consistent_def
        split: option.splits sum.splits if_splits json.splits)
next
  case (DVerify env licenseKey device)
  then show ?thesis using assms by (simp add: db_verify_state)
qed

lemma db_run_consistent: "consistent c \<Longrightarrow> consistent (db_run xs c)"
  by (induction xs arbitrary: c) (simp_all add: db_step_consistent)

subsection \<open>When the stored device is not null\<close>

lemma truthy_not_null: "truthy v \<Longrightarrow> v \<noteq> JNull"
  by (cases v) simp_all

lemma persisted_not_null:
  assumes "no_null_device s" and "truthy (deref s d)" and "\<And>w. d = Own w \<Longrightarrow> \<not> nonfinite w"
    and "persisted s d = Some v"
  shows "roundtrip v \<noteq> JNull"
proof (cases d)
  case (Own w)
  then show ?thesis
    using assms by (auto simp: persisted_def deref_def roundtrip_null dest: truthy_not_null)
next
  case Proto
  show ?thesis
  proof (cases "builtins s ''__proto__''")
    case None
    then show ?thesis using assms(2) Proto by (simp add: deref_def)
  next
    case (Some b)
    obtain p t where b: "b = (p, t)" by (cases b)
    have p: "p \<noteq> JNull \<and> \<not> nonfinite p"
      using assms(1) Some b by (simp add: no_null_device_def)
    show ?thesis
      using assms(4) Proto Some b p
      by (cases p; cases "device_object s")
         (auto simp: persisted_def deref_def nonfinite_def split: devref.splits prod.splits)
  qed
qed

lemma file_activate_no_null:
  assumes "no_null_device s" and "\<And>v. device = Some v \<Longrightarrow> \<not> nonfinite v"
  shows "no_null_device (snd (file_activate_license now writable licenseKey device s))"
proof -
  let ?s' = "snd (file_activate_license now writable licenseKey device s)"
  from file_activate_effect [of now writable licenseKey device s]
  consider "?s' = s"
    | d k' t where "body_deviceId s device = Some d" and "\<not> falsy_ref s (Some d)"
        and "?s' = snd (assign_and_save now writable k' d t s)"
    by metis
  then show ?thesis
  proof cases
    case 1
    then show ?thesis using assms by simp
  next
    case (2 d k' t)
    have tr: "truthy (deref s d)" using 2(2) by (simp add: falsy_ref_def)
    have own: "\<And>w. d = Own w \<Longrightarrow> \<not> nonfinite w"
      using 2(1) assms(2) by (auto simp: body_deviceId_def split: option.splits)
    have fin: "deref s d \<noteq> JNull \<and> \<not> nonfinite (deref s d)"
    proof (cases d)
      case (Own w)
      then show ?thesis using tr own by (auto simp: deref_def dest: truthy_not_null)
    next
      case Proto
      then show ?thesis
        using tr assms(1)
        by (auto simp: deref_def no_null_device_def split: option.splits dest: truthy_not_null)
    qed
    have records: "\<forall>k r. getLicenses (disk ?s') k = Some r \<longrightarrow> deviceId r \<noteq> Some JNull"
    proof -
      from assign_disk [of now writable k' d t s]
      consider "disk ?s' = disk s" | "disk ?s' = Json (getLicenses (disk s))"
        | r' v where "persisted s d = Some v"
            and "disk ?s' = Json ((getLicenses (disk s))(k' \<mapsto>
                   r'\<lparr>activated := True, deviceId := Some v, activationDate := Some now\<rparr>))"
        using 2(3) by auto
      then show ?thesis
      proof cases
        case 1
        then show ?thesis using assms(1) by (simp add: no_null_device_def)
      next
        case 2
        then show ?thesis using assms(1) by (simp add: no_null_device_def getLicenses_idem)
      next
        case (3 r' v)
        have "roundtrip v \<noteq> JNull"
          using persisted_not_null [OF assms(1) tr own 3(1)] by simp
        then show ?thesis
          using 3(2) assms(1)
          by (auto simp: no_null_device_def getLicenses_update reparse_def)
      qed
    qed
    have proto: "\<forall>p u. builtins ?s' ''__proto__'' = Some (p, u) \<longrightarrow> p \<noteq> JNull \<and> \<not> nonfinite p"
      using assign_builtins [of now writable k' d t s] 2(3) assms(1) fin
      by (auto simp: no_null_device_def split: if_splits)
    show ?thesis using records proto by (simp add: no_null_device_def)
  qed
qed

lemma file_step_no_null:
  assumes "no_null_device s" and "\<not> sends_nonfinite x"
  shows "no_null_device (snd (file_step x s))"
proof (cases x)
  case (FIssue e now writable)
  then show ?thesis
    using assms(1) file_generate_disk [of e now writable s]
      file_generate_builtins [of e now writable s]
    by (auto simp: no_null_device_def getLicenses_update reparse_def split: if_splits)
next
  case (FActivate now writable licenseKey device)
  then show ?thesis using assms by (auto intro: file_activate_no_null)
next
  case (FVerify licenseKey device)
  then show ?thesis using assms by (simp add: file_verify_state)
qed

lemma file_run_no_null:
  "no_null_device s \<Longrightarrow> \<forall>x\<in>set xs. \<not> sends_nonfinite x \<Longrightarrow> no_null_device (file_run xs s)"
  by (induction xs arbitrary: s) (simp_all add: file_step_no_null)

subsection \<open>Activation of a record that is bound\<close>

lemma file_activate_bound_state:
  assumes "getLicenses (disk s) k = Some r" and "activated r"
    and "text_field licenseKey = Some k"
  shows "snd (file_activate_license now writable licenseKey device s) = s"
proof -
  have "lookup s (getLicenses (disk s)) (the (text_field licenseKey)) = Record r"
    using assms(1,3) by (simp add: lookup_Some)
  moreover have "get_activated s (Record r)"
    using assms(2) by (simp add: get_activated_def)
  ultimately show ?thesis
    using file_activate_effect [of now writable licenseKey device s] by auto
qed

lemma strict_eq_Own: "strict_eq s (Some (Own a)) (Some (Own b)) = prim_eq a b"
  by (simp add: strict_eq_def deref_def)

lemma prim_eq_JString: "prim_eq (JString d) v = (v = JString d)"
  by (cases v) auto

lemma same_device_Some: "same_device (Some d) v = (v = JString d)"
  by (cases v) (auto simp: same_device_def)

lemma file_activate_bound:
  assumes "getLicenses (disk s) k = Some r" and "activated r"
    and "deviceId r = Some (JString d)" and "k \<noteq> []"
    and "truthy v" and "toStr v \<noteq> None"
  shows "file_activate_license now writable (Some (JString k)) (Some v) s =
     (if v = JString d
      then ((200, Status ''activated'' ''License is already activated for this device''), s)
      else ((403, Error ''License key is already activated on another device''), s))"
  using assms
  by (auto simp: file_activate_license_def Let_def falsy_def falsy_ref_def text_field_def
      text_ref_def body_deviceId_def deref_def lookup_Some get_activated_def
      get_deviceId_def strict_eq_Own prim_eq_JString)

lemma db_activate_bound_state:
  assumes "c k = Some r" and "activated r"
  shows "snd (db_activate_license env (Some (JString k)) device c) = c"
  using assms
  by (auto simp: db_activate_license_def findOne_def Let_def split: option.splits sum.splits)

lemma db_activate_bound:
  assumes "c k = Some r" and "activated r" and "deviceId r = Some d" and "k \<noteq> []"
    and "truthy v" and "toStr v \<noteq> None" and "find_fault env = None"
  shows "db_activate_license env (Some (JString k)) (Some v) c =
     (if v = JString d
      then ((200, Status ''activated'' ''License is already activated for this device''), c)
      else ((403, Error ''License key is already activated on another device''), c))"
  using assms
  by (auto simp: db_activate_license_def Let_def falsy_def text_field_def findOne_def
      same_device_Some)

subsection \<open>A run of each server\<close>

lemma file_run_example:
  "file_run
     [FIssue (RandomBytes [0, 0, 0, 0, 0, 0, 0, 0, 0, 0, 0, 0]) ''t1'' True,
      FActivate ''t2'' True (Some (JString ''TEST-00000000-00000000-00000000''))
        (Some (JString ''device-1''))]
     file_init =
   \<lparr>disk = Json [''TEST-00000000-00000000-00000000'' \<mapsto>
      \<lparr>product = ''test_product'', deviceId = Some (JString ''device-1''), activated = True,
       activationDate = Some ''t2'', createdAt = ''t1''\<rparr>],
    builtins = Map.empty, device_object = None\<rparr>"
  by (simp add: zero_key file_init_def file_generate_test_license_def
      file_activate_license_def assign_and_save_def getLicenses_def saveLicenses_def
      lookup_def falsy_def falsy_ref_def text_field_def text_ref_def deref_def
      body_deviceId_def get_activated_def persisted_def reparse_def Let_def fun_eq_iff)

lemma db_run_example:
  "db_run
     [DIssue \<lparr>readyState = 1, find_fault = None, query_answer = None,
              cast_answer = Inr [], save_fault = None, retry_fault = None,
              clock = 1, retry_clock = 1, retry_created = 1\<rparr>
        (RandomBytes [0, 0, 0, 0, 0, 0, 0, 0, 0, 0, 0, 0])
        (RandomBytes [0, 0, 0, 0, 0, 0, 0, 0, 0, 0, 0, 0]),
      DActivate \<lparr>readyState = 1, find_fault = None, query_answer = None,
              cast_answer = Inr [], save_fault = None, retry_fault = None,
              clock = 2, retry_clock = 2, retry_created = 2\<rparr>
        (Some (JString ''TEST-00000000-00000000-00000000'')) (Some (JString ''device-1''))]
     Map.empty =
   [''TEST-00000000-00000000-00000000'' \<mapsto>
      \<lparr>product = ''test_product'', deviceId = Some ''device-1'', activated = True,
       activationDate = Some 2, createdAt = 1\<rparr>]"
  by (simp add: zero_key db_generate_test_license_def db_activate_license_def save_new_def
      save_found_def findOne_def cast_String_def new_License_def falsy_def text_field_def
      Let_def)

section \<open>The claims\<close>

text \<open>
  Claim C4, amended. In every state that a sequence of Issue, Activate and Verify
  operations reaches from the initial state, a record of the file-backed server has
  no \<open>deviceId\<close> property exactly when it is not activated, and a record of the
  document store has a null \<open>deviceId\<close> exactly when it is not activated. The
  \<open>deviceId\<close> property of an activated record of the file is itself \<open>null\<close> only if
  some Activate request of the sequence carried a number that is not finite (such
  as \<open>1e999\<close>) as its \<open>deviceId\<close>.
\<close>

theorem device_iff_activated:
  "(getLicenses (disk (file_run xs file_init)) k = Some r \<longrightarrow>
      (deviceId r = None) = (\<not> activated r) \<and>
      ((\<forall>x\<in>set xs. \<not> sends_nonfinite x) \<longrightarrow> deviceId r \<noteq> Some JNull)) \<and>
   (db_run ys Map.empty k' = Some r' \<longrightarrow> (deviceId r' = None) = (\<not> activated r'))"
proof (intro conjI impI)
  have "consistent (getLicenses (disk file_init))"
    by (simp add: consistent_def file_init_def getLicenses_def)
  then have "consistent (getLicenses (disk (file_run xs file_init)))"
    by (rule file_run_consistent)
  moreover assume "getLicenses (disk (file_run xs file_init)) k = Some r"
  ultimately show "(deviceId r = None) = (\<not> activated r)"
    unfolding consistent_def by blast
next
  assume r: "getLicenses (disk (file_run xs file_init)) k = Some r"
    and xs: "\<forall>x\<in>set xs. \<not> sends_nonfinite x"
  have "no_null_device file_init"
    by (simp add: no_null_device_def file_init_def getLicenses_def)
  then have "no_null_device (file_run xs file_init)"
    using xs by (rule file_run_no_null)
  then show "deviceId r \<noteq> Some JNull"
    using r unfolding no_null_device_def by blast
next
  have "consistent (Map.empty :: collection)" by (simp add: consistent_def)
  then have "consistent (db_run ys Map.empty)" by (rule db_run_consistent)
  moreover assume "db_run ys Map.empty k' = Some r'"
  ultimately show "(deviceId r' = None) = (\<not> activated r')"
    unfolding consistent_def by blast
qed

theorem device_iff_activated_witness:
  "getLicenses (disk (file_run
     [FIssue (RandomBytes [0, 0, 0, 0, 0, 0, 0, 0, 0, 0, 0, 0]) ''t1'' True,
      FActivate ''t2'' True (Some (JString ''TEST-00000000-00000000-00000000''))
        (Some (JString ''device-1''))]
     file_init)) ''TEST-00000000-00000000-00000000'' =
     Some \<lparr>product = ''test_product'', deviceId = Some (JString ''device-1''),
           activated = True, activationDate = Some ''t2'', createdAt = ''t1''\<rparr> \<and>
   db_run
     [DIssue \<lparr>readyState = 1, find_fault = None, query_answer = None,
              cast_answer = Inr [], save_fault = None, retry_fault = None,
              clock = 1, retry_clock = 1, retry_created = 1\<rparr>
        (RandomBytes [0, 0, 0, 0, 0, 0, 0, 0, 0, 0, 0, 0])
        (RandomBytes [0, 0, 0, 0, 0, 0, 0, 0, 0, 0, 0, 0]),
      DActivate \<lparr>readyState = 1, find_fault = None, query_answer = None,
              cast_answer = Inr [], save_fault = None, retry_fault = None,
              clock = 2, retry_clock = 2, retry_created = 2\<rparr>
        (Some (JString ''TEST-00000000-00000000-00000000'')) (Some (JString ''device-1''))]
     Map.empty ''TEST-00000000-00000000-00000000'' =
     Some \<lparr>product = ''test_product'', deviceId = Some ''device-1'', activated = True,
           activationDate = Some 2, createdAt = 1\<rparr> \<and>
   (deviceId \<lparr>product = ''test_product'', deviceId = Some (JString ''device-1''),
             activated = True, activationDate = Some ''t2'', createdAt = ''t1''\<rparr> = None) =
   (\<not> activated \<lparr>product = ''test_product'', deviceId = Some (JString ''device-1''),
             activated = True, activationDate = Some ''t2'', createdAt = ''t1''\<rparr>) \<and>
   deviceId \<lparr>product = ''test_product'', deviceId = Some (JString ''device-1''),
             activated = True, activationDate = Some ''t2'', createdAt = ''t1''\<rparr>
     \<noteq> Some JNull"
proof -
  let ?r = "\<lparr>product = ''test_product'', deviceId = Some (JString ''device-1''),
             activated = True, activationDate = Some ''t2'', createdAt = ''t1''\<rparr>"
  let ?r' = "\<lparr>product = ''test_product'', deviceId = Some ''device-1'', activated = True,
             activationDate = Some (2::nat), createdAt = (1::nat)\<rparr>"
  let ?k = "''TEST-00000000-00000000-00000000''"
  let ?xs = "[FIssue (RandomBytes [0, 0, 0, 0, 0, 0, 0, 0, 0, 0, 0, 0]) ''t1'' True,
      FActivate ''t2'' True (Some (JString ?k)) (Some (JString ''device-1''))]"
  let ?ys = "[DIssue \<lparr>readyState = 1, find_fault = None, query_answer = None,
              cast_answer = Inr [], save_fault = None, retry_fault = None,
              clock = 1, retry_clock = 1, retry_created = 1\<rparr>
        (RandomBytes [0, 0, 0, 0, 0, 0, 0, 0, 0, 0, 0, 0])
        (RandomBytes [0, 0, 0, 0, 0, 0, 0, 0, 0, 0, 0, 0]),
      DActivate \<lparr>readyState = 1, find_fault = None, query_answer = None,
              cast_answer = Inr [], save_fault = None, retry_fault = None,
              clock = 2, retry_clock = 2, retry_created = 2\<rparr>
        (Some (JString ?k)) (Some (JString ''device-1''))]"
  have f: "getLicenses (disk (file_run ?xs file_init)) ?k = Some ?r"
    unfolding file_run_example by (simp add: getLicenses_def reparse_def)
  have d: "db_run ?ys Map.empty ?k = Some ?r'"
    unfolding db_run_example by simp
  have n: "\<forall>x\<in>set ?xs. \<not> sends_nonfinite x"
    by (simp add: nonfinite_def)
  note th = device_iff_activated [of ?xs ?k ?r ?ys ?k ?r']
  from th f d n have "(deviceId ?r = None) = (\<not> activated ?r) \<and> deviceId ?r \<noteq> Some JNull"
    by blast
  with f d show ?thesis by blast
qed

text \<open>
  Claim C4 as stated fails in the file-backed server: an Activate request whose
  \<open>deviceId\<close> is the number \<open>1e999\<close> passes the validation, is answered 200, and
  leaves a record in the file that is activated and has \<open>null\<close> as its \<open>deviceId\<close>.
\<close>

theorem null_device_counterexample:
  "fst (file_step
     (FActivate ''t2'' True (Some (JString ''TEST-00000000-00000000-00000000''))
        (Some (JNumber ''Infinity'')))
     (file_run [FIssue (RandomBytes [0, 0, 0, 0, 0, 0, 0, 0, 0, 0, 0, 0]) ''t1'' True]
        file_init)) =
     (200, Status ''activated'' ''License activated successfully'') \<and>
   getLicenses (disk (file_run
     [FIssue (RandomBytes [0, 0, 0, 0, 0, 0, 0, 0, 0, 0, 0, 0]) ''t1'' True,
      FActivate ''t2'' True (Some (JString ''TEST-00000000-00000000-00000000''))
        (Some (JNumber ''Infinity''))]
     file_init)) ''TEST-00000000-00000000-00000000'' =
     Some \<lparr>product = ''test_product'', deviceId = Some JNull, activated = True,
           activationDate = Some ''t2'', createdAt = ''t1''\<rparr>"
  by (simp add: zero_key file_init_def file_generate_test_license_def
      file_activate_license_def assign_and_save_def getLicenses_def saveLicenses_def
      lookup_def falsy_def falsy_ref_def text_field_def text_ref_def deref_def
      body_deviceId_def get_activated_def persisted_def reparse_def Let_def)

text \<open>
  Claim C5, amended. When the record under a key is activated and bound to a
  \<open>deviceId\<close> that is a string, Activate with that key and the same string answers
  200 with the message of the idempotent success, and Activate with any other
  \<open>deviceId\<close> that is truthy and converts to a string answers 403. Whatever the
  \<open>deviceId\<close> of the request is, an Activate with the key of an activated record
  leaves the state as it was, so the record, its device and its activation date are
  unchanged. This holds in the file-backed server and, for the answers when the
  lookup reaches the collection, in the document-store server.
\<close>

theorem activate_bound_license:
  assumes "activated r" and "activated r'" and "k \<noteq> []" and "truthy v" and "toStr v \<noteq> None"
  shows "(getLicenses (disk s) k = Some r \<and> deviceId r = Some (JString d) \<longrightarrow>
            file_activate_license now writable (Some (JString k)) (Some v) s =
              (if v = JString d
               then ((200, Status ''activated''
                             ''License is already activated for this device''), s)
               else ((403, Error ''License key is already activated on another device''), s))) \<and>
         (getLicenses (disk s) k = Some r \<longrightarrow>
            snd (file_activate_license now writable (Some (JString k)) device s) = s) \<and>
         (c k = Some r' \<and> deviceId r' = Some d' \<and> find_fault env = None \<longrightarrow>
            db_activate_license env (Some (JString k)) (Some v) c =
              (if v = JString d'
               then ((200, Status ''activated''
                             ''License is already activated for this device''), c)
               else ((403, Error ''License key is already activated on another device''), c))) \<and>
         (c k = Some r' \<longrightarrow>
            snd (db_activate_license env (Some (JString k)) device c) = c)"
proof (intro conjI impI)
  assume "getLicenses (disk s) k = Some r \<and> deviceId r = Some (JString d)"
  then show "file_activate_license now writable (Some (JString k)) (Some v) s =
              (if v = JString d
               then ((200, Status ''activated''
                             ''License is already activated for this device''), s)
               else ((403, Error ''License key is already activated on another device''), s))"
    using assms by (simp add: file_activate_bound)
next
  assume "getLicenses (disk s) k = Some r"
  then show "snd (file_activate_license now writable (Some (JString k)) device s) = s"
    using assms(1) by (simp add: file_activate_bound_state text_field_def)
next
  assume "c k = Some r' \<and> deviceId r' = Some d' \<and> find_fault env = None"
  then show "db_activate_license env (Some (JString k)) (Some v) c =
              (if v = JString d'
               then ((200, Status ''activated''
                             ''License is already activated for this device''), c)
               else ((403, Error ''License key is already activated on another device''), c))"
    using assms db_activate_bound [of c k r' d' v env] by simp
next
  assume "c k = Some r'"
  then show "snd (db_activate_license env (Some (JString k)) device c) = c"
    using assms(2) by (rule db_activate_bound_state)
qed

theorem activate_bound_license_witness:
  "file_activate_license ''t9'' True (Some (JString ''TEST-00000000-00000000-00000000''))
     (Some (JString ''device-1''))
     \<lparr>disk = Json [''TEST-00000000-00000000-00000000'' \<mapsto>
        \<lparr>product = ''test_product'', deviceId = Some (JString ''device-1''),
         activated = True, activationDate = Some ''t2'', createdAt = ''t1''\<rparr>],
      builtins = Map.empty, device_object = None\<rparr> =
   ((200, Status ''activated'' ''License is already activated for this device''),
     \<lparr>disk = Json [''TEST-00000000-00000000-00000000'' \<mapsto>
        \<lparr>product = ''test_product'', deviceId = Some (JString ''device-1''),
         activated = True, activationDate = Some ''t2'', createdAt = ''t1''\<rparr>],
      builtins = Map.empty, device_object = None\<rparr>) \<and>
   db_activate_license
     \<lparr>readyState = 1, find_fault = None, query_answer = None, cast_answer = Inr [],
      save_fault = None, retry_fault = None, clock = 9, retry_clock = 9, retry_created = 9\<rparr>
     (Some (JString ''TEST-00000000-00000000-00000000'')) (Some (JString ''device-1''))
     [''TEST-00000000-00000000-00000000'' \<mapsto>
        \<lparr>product = ''test_product'', deviceId = Some ''device-2'', activated = True,
         activationDate = Some 2, createdAt = 1\<rparr>] =
   ((403, Error ''License key is already activated on another device''),
     [''TEST-00000000-00000000-00000000'' \<mapsto>
        \<lparr>product = ''test_product'', deviceId = Some ''device-2'', activated = True,
         activationDate = Some 2, createdAt = 1\<rparr>])"
proof -
  let ?k = "''TEST-00000000-00000000-00000000''"
  let ?r = "\<lparr>product = ''test_product'', deviceId = Some (JString ''device-1''),
         activated = True, activationDate = Some ''t2'', createdAt = ''t1''\<rparr>"
  let ?r' = "\<lparr>product = ''test_product'', deviceId = Some ''device-2'', activated = True,
         activationDate = Some (2::nat), createdAt = (1::nat)\<rparr>"
  let ?s = "\<lparr>disk = Json [?k \<mapsto> ?r], builtins = Map.empty, device_object = None\<rparr>"
  let ?env = "\<lparr>readyState = 1, find_fault = None, query_answer = None, cast_answer = Inr [],
      save_fault = None, retry_fault = None, clock = 9, retry_clock = 9, retry_created = 9\<rparr>"
  have a: "activated ?r" and b: "activated ?r'" and c: "?k \<noteq> []"
    and d: "truthy (JString ''device-1'')" and e: "toStr (JString ''device-1'') \<noteq> None"
    by simp_all
  have f: "getLicenses (disk ?s) ?k = Some ?r \<and> deviceId ?r = Some (JString ''device-1'')"
    by (simp add: getLicenses_def reparse_def)
  have g: "[?k \<mapsto> ?r'] ?k = Some ?r' \<and> deviceId ?r' = Some ''device-2'' \<and>
           find_fault ?env = None"
    by simp
  note th = activate_bound_license [OF a b c d e, of ?s "''device-1''" "''t9''" True None
      "[?k \<mapsto> ?r']" "''device-2''" ?env]
  from th f g show ?thesis by simp
qed

text \<open>
  Claim C5 as stated fails in the file-backed server: with the object
  \<open>{"id": "device-1"}\<close> as \<open>deviceId\<close>, the first Activate binds the license and the
  repeat with the same body is answered 403, because the two parsed objects are not
  the same object.
\<close>

theorem repeat_object_counterexample:
  "fst (file_step
     (FActivate ''t2'' True (Some (JString ''TEST-00000000-00000000-00000000''))
        (Some (JObject [(''id'', JString ''device-1'')])))
     (file_run [FIssue (RandomBytes [0, 0, 0, 0, 0, 0, 0, 0, 0, 0, 0, 0]) ''t1'' True]
        file_init)) =
     (200, Status ''activated'' ''License activated successfully'') \<and>
   fst (file_step
     (FActivate ''t3'' True (Some (JString ''TEST-00000000-00000000-00000000''))
        (Some (JObject [(''id'', JString ''device-1'')])))
     (file_run
        [FIssue (RandomBytes [0, 0, 0, 0, 0, 0, 0, 0, 0, 0, 0, 0]) ''t1'' True,
         FActivate ''t2'' True (Some (JString ''TEST-00000000-00000000-00000000''))
           (Some (JObject [(''id'', JString ''device-1'')]))]
        file_init)) =
     (403, Error ''License key is already activated on another device'')"
  by (simp add: zero_key file_init_def file_generate_test_license_def
      file_activate_license_def assign_and_save_def getLicenses_def saveLicenses_def
      lookup_def falsy_def falsy_ref_def text_field_def text_ref_def deref_def
      body_deviceId_def get_activated_def get_deviceId_def strict_eq_def persisted_def
      reparse_def Let_def)





text \<open>
  Claim C7, amended. In the document-store server, when the connection is ready, the
  driver has no fault of its own and the first key is already in the collection,
  Issue generates one more key, under the prefix \<open>TEST-\<close> followed by the whole
  base-36 text of the clock. If that key is not in the collection, a Pending record is
  stored under it, nothing else changes and the answer is 201 with that key; if it is
  in the collection too, the answer is 500 and the collection is unchanged. No Issue
  of the document-store server changes or removes a record. The file-backed server
  detects no conflict: when the write succeeds, Issue there stores a Pending record
  under the generated key and answers 201.
\<close>

theorem issue_on_conflict:
  "(readyState env = 1 \<and> save_fault env = None \<and> retry_fault env = None \<and>
    generateLicenseKey ''TEST'' e \<in> dom c \<longrightarrow>
      (generateLicenseKey (''TEST-'' @ toString36 (retry_clock env)) e' \<notin> dom c \<longrightarrow>
         db_generate_test_license env e e' c =
           ((201, LicenseKey (generateLicenseKey (''TEST-'' @ toString36 (retry_clock env)) e')),
            c(generateLicenseKey (''TEST-'' @ toString36 (retry_clock env)) e' \<mapsto>
                \<lparr>product = ''test_product'', deviceId = None, activated = False,
                 activationDate = None, createdAt = retry_created env\<rparr>))) \<and>
      (generateLicenseKey (''TEST-'' @ toString36 (retry_clock env)) e' \<in> dom c \<longrightarrow>
         fst (fst (db_generate_test_license env e e' c)) = 500 \<and>
         snd (db_generate_test_license env e e' c) = c)) \<and>
   (c k = Some r \<longrightarrow> snd (db_generate_test_license env e e' c) k = Some r) \<and>
   file_generate_test_license e now True s =
     ((201, LicenseKey (generateLicenseKey ''TEST'' e)),
      s\<lparr>disk := Json ((getLicenses (disk s))(generateLicenseKey ''TEST'' e \<mapsto>
            \<lparr>product = ''test_product'', deviceId = None, activated = False,
             activationDate = None, createdAt = now\<rparr>))\<rparr>)"
proof (intro conjI impI)
  assume h: "readyState env = 1 \<and> save_fault env = None \<and> retry_fault env = None \<and>
    generateLicenseKey ''TEST'' e \<in> dom c"
  {
    assume "generateLicenseKey (''TEST-'' @ toString36 (retry_clock env)) e' \<notin> dom c"
    with h show "db_generate_test_license env e e' c =
           ((201, LicenseKey (generateLicenseKey (''TEST-'' @ toString36 (retry_clock env)) e')),
            c(generateLicenseKey (''TEST-'' @ toString36 (retry_clock env)) e' \<mapsto>
                \<lparr>product = ''test_product'', deviceId = None, activated = False,
                 activationDate = None, createdAt = retry_created env\<rparr>))"
      by (auto simp: db_generate_test_license_def save_new_def new_License_def
          substring_from_def Let_def)
  }
  {
    assume "generateLicenseKey (''TEST-'' @ toString36 (retry_clock env)) e' \<in> dom c"
    with h show "fst (fst (db_generate_test_license env e e' c)) = 500"
      and "snd (db_generate_test_license env e e' c) = c"
      by (auto simp: db_generate_test_license_def save_new_def new_License_def
          substring_from_def Let_def)
  }
next
  assume "c k = Some r"
  then show "snd (db_generate_test_license env e e' c) k = Some r"
    by (rule db_generate_keeps)
next
  show "file_generate_test_license e now True s =
     ((201, LicenseKey (generateLicenseKey ''TEST'' e)),
      s\<lparr>disk := Json ((getLicenses (disk s))(generateLicenseKey ''TEST'' e \<mapsto>
            \<lparr>product = ''test_product'', deviceId = None, activated = False,
             activationDate = None, createdAt = now\<rparr>))\<rparr>)"
    by (simp add: file_generate_test_license_def saveLicenses_def Let_def)
qed

lemma toString36_100: "toString36 100 = ''2s''"
  by (simp add: toString36.simps digit36_def)

lemma retry_key:
  "generateLicenseKey ''TEST-2s'' (RandomBytes [0, 0, 0, 0, 0, 0, 0, 0, 0, 0, 0, 0]) =
   ''TEST-2s-00000000-00000000-00000000''"
  by (simp add: generateLicenseKey_def toUpperCase_def toString_hex_def hex_byte_def
      hex_digit_def substr_def upper_char_def)

theorem issue_on_conflict_witness:
  "db_generate_test_license
     \<lparr>readyState = 1, find_fault = None, query_answer = None, cast_answer = Inr [],
      save_fault = None, retry_fault = None, clock = 99, retry_clock = 100,
      retry_created = 101\<rparr>
     (RandomBytes [0, 0, 0, 0, 0, 0, 0, 0, 0, 0, 0, 0])
     (RandomBytes [0, 0, 0, 0, 0, 0, 0, 0, 0, 0, 0, 0])
     [''TEST-00000000-00000000-00000000'' \<mapsto>
        \<lparr>product = ''test_product'', deviceId = Some ''device-1'', activated = True,
         activationDate = Some 2, createdAt = 1\<rparr>] =
   ((201, LicenseKey ''TEST-2s-00000000-00000000-00000000''),
    [''TEST-00000000-00000000-00000000'' \<mapsto>
        \<lparr>product = ''test_product'', deviceId = Some ''device-1'', activated = True,
         activationDate = Some 2, createdAt = 1\<rparr>,
     ''TEST-2s-00000000-00000000-00000000'' \<mapsto>
        \<lparr>product = ''test_product'', deviceId = None, activated = False,
         activationDate = None, createdAt = 101\<rparr>])"
  using issue_on_conflict
    [of "\<lparr>readyState = 1, find_fault = None, query_answer = None, cast_answer = Inr [],
          save_fault = None, retry_fault = None, clock = 99, retry_clock = 100,
          retry_created = 101\<rparr>"
        "RandomBytes [0, 0, 0, 0, 0, 0, 0, 0, 0, 0, 0, 0]"
        "[''TEST-00000000-00000000-00000000'' \<mapsto>
           \<lparr>product = ''test_product'', deviceId = Some ''device-1'', activated = True,
            activationDate = Some 2, createdAt = 1\<rparr>]"
        "RandomBytes [0, 0, 0, 0, 0, 0, 0, 0, 0, 0, 0, 0]"]
  by (simp add: zero_key toString36_100 retry_key)

text \<open>
  Claim C7 as stated fails in the file-backed server: with a record stored under the
  key that the generator returns, Issue answers 201 with that key and the record is
  replaced by a Pending one.
\<close>

theorem issue_overwrites_counterexample:
  "fst (file_generate_test_license (RandomBytes [0, 0, 0, 0, 0, 0, 0, 0, 0, 0, 0, 0]) ''t9''
     True
     \<lparr>disk = Json [''TEST-00000000-00000000-00000000'' \<mapsto>
        \<lparr>product = ''test_product'', deviceId = Some (JString ''device-1''),
         activated = True, activationDate = Some ''t2'', createdAt = ''t1''\<rparr>],
      builtins = Map.empty, device_object = None\<rparr>) =
     (201, LicenseKey ''TEST-00000000-00000000-00000000'') \<and>
   getLicenses (disk (snd (file_generate_test_license
     (RandomBytes [0, 0, 0, 0, 0, 0, 0, 0, 0, 0, 0, 0]) ''t9'' True
     \<lparr>disk = Json [''TEST-00000000-00000000-00000000'' \<mapsto>
        \<lparr>product = ''test_product'', deviceId = Some (JString ''device-1''),
         activated = True, activationDate = Some ''t2'', createdAt = ''t1''\<rparr>],
      builtins = Map.empty, device_object = None\<rparr>))) =
     [''TEST-00000000-00000000-00000000'' \<mapsto>
        \<lparr>product = ''test_product'', deviceId = None, activated = False,
         activationDate = None, createdAt = ''t9''\<rparr>]"
  by (simp add: zero_key file_generate_test_license_def getLicenses_def saveLicenses_def
      reparse_def Let_def fun_eq_iff)

text \<open>
  Claim C9, amended. \<open>GET /api/admin/licenses\<close> answers 200 with the full mapping of
  the persisted records, each as \<open>JSON.parse\<close> reads it from the file, when the
  license file can be read, and 200 with the empty mapping when it cannot be read or
  parsed; it never answers 500, and it leaves the state as it is.
\<close>

theorem admin_licenses_listing:
  "(disk s = Json m \<longrightarrow>
      file_admin_licenses s = ((200, Licenses (\<lambda>k. map_option reparse (m k))), s)) \<and>
   (disk s = Unreadable \<longrightarrow> file_admin_licenses s = ((200, Licenses Map.empty), s)) \<and>
   fst (fst (file_admin_licenses s)) \<noteq> 500"
  by (simp add: file_admin_licenses_def getLicenses_def)

theorem admin_licenses_listing_witness:
  "file_admin_licenses
     \<lparr>disk = Json [''TEST-00000000-00000000-00000000'' \<mapsto>
        \<lparr>product = ''test_product'', deviceId = None, activated = False,
         activationDate = None, createdAt = ''t1''\<rparr>],
      builtins = Map.empty, device_object = None\<rparr> =
   ((200, Licenses [''TEST-00000000-00000000-00000000'' \<mapsto>
        \<lparr>product = ''test_product'', deviceId = None, activated = False,
         activationDate = None, createdAt = ''t1''\<rparr>]),
    \<lparr>disk = Json [''TEST-00000000-00000000-00000000'' \<mapsto>
        \<lparr>product = ''test_product'', deviceId = None, activated = False,
         activationDate = None, createdAt = ''t1''\<rparr>],
      builtins = Map.empty, device_object = None\<rparr>) \<and>
   file_admin_licenses \<lparr>disk = Unreadable, builtins = Map.empty, device_object = None\<rparr> =
   ((200, Licenses Map.empty),
    \<lparr>disk = Unreadable, builtins = Map.empty, device_object = None\<rparr>)"
proof -
  let ?m = "[''TEST-00000000-00000000-00000000'' \<mapsto>
        \<lparr>product = ''test_product'', deviceId = None :: json option, activated = False,
         activationDate = None :: string option, createdAt = ''t1''\<rparr>]"
  show ?thesis
    using
      admin_licenses_listing
        [of "\<lparr>disk = Json ?m, builtins = Map.empty, device_object = None\<rparr>" ?m]
      admin_licenses_listing
        [of "\<lparr>disk = Unreadable, builtins = Map.empty, device_object = None\<rparr>"]
    by (simp add: reparse_def fun_eq_iff)
qed

text \<open>
  Claim C9 as stated fails: with an unreadable license file the answer is 200, not
  500.
\<close>

theorem admin_licenses_counterexample:
  "fst (file_admin_licenses \<lparr>disk = Unreadable, builtins = Map.empty, device_object = None\<rparr>) =
     (200, Licenses Map.empty) \<and>
   fst (fst (file_admin_licenses
     \<lparr>disk = Unreadable, builtins = Map.empty, device_object = None\<rparr>)) \<noteq> 500"
  by (simp add: file_admin_licenses_def getLicenses_def)

text \<open>
  Claim C10. In the file-backed server, when the license file cannot be read or
  parsed, \<open>getLicenses\<close> returns the empty mapping; so Activate and Verify of a key
  that Issue can have persisted (a key of the generator under the prefix \<open>TEST\<close>),
  with a device given (a truthy value that converts to a string, as every string
  but the empty one does), answer 404, and the admin listing answers 200 with the
  empty mapping; none of them changes the state.
\<close>

theorem unreadable_file_reads_empty:
  assumes "disk s = Unreadable" and "k = generateLicenseKey ''TEST'' e"
    and "\<not> falsy device" and "text_field device \<noteq> None"
  shows "getLicenses (disk s) = Map.empty \<and>
         file_activate_license now writable (Some (JString k)) device s =
           ((404, Error ''Invalid license key''), s) \<and>
         file_verify_license (Some (JString k)) device s =
           ((404, Error ''Invalid license key''), s) \<and>
         file_admin_licenses s = ((200, Licenses Map.empty), s)"
proof -
  obtain v where v: "device = Some v" and tv: "truthy v" and sv: "toStr v \<noteq> None"
    using assms(3,4) by (cases device) (auto simp: falsy_def text_field_def)
  have g: "getLicenses (disk s) = Map.empty"
    using assms(1) by (simp add: getLicenses_def)
  have l: "lookup s Map.empty k = Undefined"
    using generated_key_undefined [of s e] assms(2) by simp
  have f: "\<not> falsy (Some (JString k))"
    using generated_key_not_empty [of "''TEST''" e] assms(2) by (simp add: falsy_def)
  have d: "body_deviceId s device = Some (Own v)"
    using v by (simp add: body_deviceId_def)
  have "file_activate_license now writable (Some (JString k)) device s =
          ((404, Error ''Invalid license key''), s)"
    using g l f d tv sv
    by (auto simp: file_activate_license_def Let_def text_field_def text_ref_def
        falsy_ref_def deref_def)
  moreover have "file_verify_license (Some (JString k)) device s =
          ((404, Error ''Invalid license key''), s)"
    using g l f d tv sv
    by (auto simp: file_verify_license_def Let_def text_field_def text_ref_def
        falsy_ref_def deref_def)
  moreover have "file_admin_licenses s = ((200, Licenses Map.empty), s)"
    using g by (simp add: file_admin_licenses_def)
  ultimately show ?thesis using g by simp
qed

theorem unreadable_file_reads_empty_witness:
  "file_activate_license ''t5'' True (Some (JString ''TEST-00000000-00000000-00000000''))
     (Some (JString ''device-1''))
     \<lparr>disk = Unreadable, builtins = Map.empty, device_object = None\<rparr> =
     ((404, Error ''Invalid license key''),
      \<lparr>disk = Unreadable, builtins = Map.empty, device_object = None\<rparr>) \<and>
   file_verify_license (Some (JString ''TEST-00000000-00000000-00000000''))
     (Some (JString ''device-1''))
     \<lparr>disk = Unreadable, builtins = Map.empty, device_object = None\<rparr> =
     ((404, Error ''Invalid license key''),
      \<lparr>disk = Unreadable, builtins = Map.empty, device_object = None\<rparr>) \<and>
   file_admin_licenses \<lparr>disk = Unreadable, builtins = Map.empty, device_object = None\<rparr> =
     ((200, Licenses Map.empty),
      \<lparr>disk = Unreadable, builtins = Map.empty, device_object = None\<rparr>)"
proof -
  let ?s = "\<lparr>disk = Unreadable, builtins = Map.empty, device_object = None\<rparr>"
  have a: "disk ?s = Unreadable" by simp
  have b: "''TEST-00000000-00000000-00000000'' =
           generateLicenseKey ''TEST'' (RandomBytes [0, 0, 0, 0, 0, 0, 0, 0, 0, 0, 0, 0])"
    by (simp add: zero_key)
  have c: "\<not> falsy (Some (JString ''device-1''))" by (simp add: falsy_def)
  have d: "text_field (Some (JString ''device-1'')) \<noteq> None" by (simp add: text_field_def)
  show ?thesis
    using unreadable_file_reads_empty [OF a b c d, of "''t5''" True] by simp
qed

section \<open>Names that a plain object inherits\<close>

text \<open>
  The claims C1, C2 and C8 hold of the document-store server for requests whose
  fields are strings, and of the file-backed server as long as nothing has been
  written on \<open>Object.prototype\<close> and the request names no property that the parsed
  license file inherits. The lemmas state that; the three theorems after them run
  the file-backed server on requests that do name one.
\<close>

lemma db_activate_cases:
  assumes "k \<noteq> []" and "d \<noteq> []" and "find_fault env = None" and "save_fault env = None"
  shows "c k = None \<Longrightarrow>
           db_activate_license env (Some (JString k)) (Some (JString d)) c =
             ((404, Error ''Invalid license key''), c)"
    and "c k = Some r \<Longrightarrow> activated r \<Longrightarrow> deviceId r = Some d \<Longrightarrow>
           db_activate_license env (Some (JString k)) (Some (JString d)) c =
             ((200, Status ''activated'' ''License is already activated for this device''), c)"
    and "c k = Some r \<Longrightarrow> activated r \<Longrightarrow> deviceId r \<noteq> Some d \<Longrightarrow>
           db_activate_license env (Some (JString k)) (Some (JString d)) c =
             ((403, Error ''License key is already activated on another device''), c)"
    and "c k = Some r \<Longrightarrow> \<not> activated r \<Longrightarrow>
           db_activate_license env (Some (JString k)) (Some (JString d)) c =
             ((200, Status ''activated'' ''License activated successfully''),
              c(k \<mapsto> r\<lparr>activated := True, deviceId := Some d,
                        activationDate := Some (clock env)\<rparr>))"
  using assms
  by (auto simp: db_activate_license_def findOne_def save_found_def cast_String_def
      falsy_def text_field_def same_device_def Let_def split: option.splits)

lemma file_activate_cases:
  assumes "k \<noteq> []" and "d \<noteq> []" and "k \<notin> set inherited_names"
    and "builtins s ''__proto__'' = None"
  shows "getLicenses (disk s) k = None \<Longrightarrow>
           file_activate_license now writable (Some (JString k)) (Some (JString d)) s =
             ((404, Error ''Invalid license key''), s)"
    and "getLicenses (disk s) k = Some r \<Longrightarrow> activated r \<Longrightarrow>
         deviceId r = Some (JString d) \<Longrightarrow>
           file_activate_license now writable (Some (JString k)) (Some (JString d)) s =
             ((200, Status ''activated'' ''License is already activated for this device''), s)"
    and "getLicenses (disk s) k = Some r \<Longrightarrow> activated r \<Longrightarrow>
         deviceId r = Some (JString d') \<Longrightarrow> d' \<noteq> d \<Longrightarrow>
           file_activate_license now writable (Some (JString k)) (Some (JString d)) s =
             ((403, Error ''License key is already activated on another device''), s)"
    and "getLicenses (disk s) k = Some r \<Longrightarrow> \<not> activated r \<Longrightarrow>
           file_activate_license now True (Some (JString k)) (Some (JString d)) s =
             ((200, Status ''activated'' ''License activated successfully''),
              s\<lparr>disk := Json ((getLicenses (disk s))(k \<mapsto>
                    r\<lparr>activated := True, deviceId := Some (JString d),
                      activationDate := Some now\<rparr>))\<rparr>)"
  using assms
  by (simp_all add: file_activate_license_def assign_and_save_def lookup_def
      get_activated_def get_deviceId_def body_deviceId_def saveLicenses_def falsy_def
      falsy_ref_def text_field_def text_ref_def deref_def persisted_def strict_eq_Own
      Let_def)

lemma db_verify_cases:
  assumes "k \<noteq> []" and "d \<noteq> []" and "find_fault env = None"
  shows "db_verify_license env (Some (JString k)) (Some (JString d)) c =
     (case c k of
        None \<Rightarrow> ((404, Error ''Invalid license key''), c)
      | Some r \<Rightarrow>
          if \<not> activated r then ((403, Error ''License key is not activated''), c)
          else if deviceId r \<noteq> Some d
          then ((403, Error ''License is not activated for this device''), c)
          else ((200, Status ''valid'' ''License is valid''), c))"
  using assms
  by (auto simp: db_verify_license_def findOne_def falsy_def text_field_def same_device_def
      split: option.splits)

lemma file_verify_cases:
  assumes "k \<noteq> []" and "d \<noteq> []" and "k \<notin> set inherited_names"
    and "builtins s ''__proto__'' = None"
  shows "file_verify_license (Some (JString k)) (Some (JString d)) s =
     (case getLicenses (disk s) k of
        None \<Rightarrow> ((404, Error ''Invalid license key''), s)
      | Some r \<Rightarrow>
          if \<not> activated r then ((403, Error ''License key is not activated''), s)
          else if \<not> (\<exists>v. deviceId r = Some v \<and> prim_eq v (JString d))
          then (if text_field (deviceId r) = None
                then ((500, ErrorMessage ''Failed to verify license'' type_error), s)
                else ((403, Error ''License is not activated for this device''), s))
          else ((200, Status ''valid'' ''License is valid''), s))"
  using assms
  by (auto simp: file_verify_license_def lookup_def get_activated_def get_deviceId_def
      body_deviceId_def falsy_def falsy_ref_def text_field_def text_ref_def deref_def
      strict_eq_def inherited_deviceId_def polluted_def Let_def split: option.splits)

lemma verify_reads_only:
  "snd (file_verify_license licenseKey device s) = s"
  "snd (db_verify_license env licenseKey device c) = c"
  by (simp_all add: file_verify_state db_verify_state)

lemma db_required_fields:
  "falsy licenseKey \<or> falsy device \<Longrightarrow>
     db_activate_license env licenseKey device c =
       ((400, Error ''License key and device ID are required''), c) \<and>
     db_verify_license env licenseKey device c =
       ((400, Error ''License key and device ID are required''), c)"
  "\<not> falsy licenseKey \<Longrightarrow> \<not> falsy device \<Longrightarrow>
     fst (fst (db_activate_license env licenseKey device c)) \<noteq> 400 \<and>
     fst (fst (db_verify_license env licenseKey device c)) \<noteq> 400"
  by (auto simp add: db_activate_license_def db_verify_license_def Let_def
      split: option.splits sum.splits)

lemma file_required_fields:
  assumes "builtins s ''__proto__'' = None"
    and "text_field licenseKey \<noteq> None" and "text_field device \<noteq> None"
  shows "falsy licenseKey \<or> falsy device \<Longrightarrow>
     file_activate_license now writable licenseKey device s =
       ((400, Error ''License key and device ID are required''), s) \<and>
     file_verify_license licenseKey device s =
       ((400, Error ''License key and device ID are required''), s)"
  and "\<not> falsy licenseKey \<Longrightarrow> \<not> falsy device \<Longrightarrow>
     fst (fst (file_activate_license now writable licenseKey device s)) \<noteq> 400 \<and>
     fst (fst (file_verify_license licenseKey device s)) \<noteq> 400"
  using assms
  by (auto simp add: file_activate_license_def file_verify_license_def body_deviceId_def
      falsy_def falsy_ref_def text_field_def text_ref_def deref_def Let_def
      split: option.splits prod.splits)

text \<open>
  Claim C1 on the file-backed server, at the key \<open>constructor\<close>. The license file of
  the initial state holds no record under that key, yet Activate answers 200 with
  the message of a first activation: the device and the date are written on the
  built-in object that the parsed file inherits under that name.
\<close>

theorem activate_inherited_name:
  "getLicenses (disk file_init) ''constructor'' = None \<and>
   file_activate_license ''t1'' True (Some (JString ''constructor''))
     (Some (JString ''device-1'')) file_init =
     ((200, Status ''activated'' ''License activated successfully''),
      \<lparr>disk = Json Map.empty,
       builtins = [''constructor'' \<mapsto> (JString ''device-1'', ''t1'')],
       device_object = None\<rparr>)"
  by (simp add: file_activate_license_def assign_and_save_def file_init_def getLicenses_def
      lookup_def inherited_names_def get_activated_def polluted_def saveLicenses_def
      falsy_def falsy_ref_def text_field_def text_ref_def deref_def body_deviceId_def
      Let_def)

text \<open>
  Claim C2 on the file-backed server, at the key \<open>constructor\<close>. With no record under
  that key, Verify answers 403 (not activated) in the initial state, and 200 (valid)
  once Activate has been called with that key.
\<close>

theorem verify_inherited_name:
  "getLicenses (disk file_init) ''constructor'' = None \<and>
   fst (file_verify_license (Some (JString ''constructor'')) (Some (JString ''device-1''))
     file_init) =
     (403, Error ''License key is not activated'') \<and>
   getLicenses (disk (snd (file_activate_license ''t1'' True (Some (JString ''constructor''))
     (Some (JString ''device-1'')) file_init))) ''constructor'' = None \<and>
   fst (file_verify_license (Some (JString ''constructor'')) (Some (JString ''device-1''))
     (snd (file_activate_license ''t1'' True (Some (JString ''constructor''))
        (Some (JString ''device-1'')) file_init))) =
     (200, Status ''valid'' ''License is valid'')"
  by (simp add: file_activate_license_def file_verify_license_def assign_and_save_def
      file_init_def getLicenses_def lookup_def inherited_names_def get_activated_def
      get_deviceId_def polluted_def saveLicenses_def falsy_def falsy_ref_def text_field_def
      text_ref_def deref_def body_deviceId_def strict_eq_def Let_def)

text \<open>
  Claim C8 on the file-backed server. After Activate with the key \<open>__proto__\<close>, which
  writes the device on \<open>Object.prototype\<close>, a Verify request without \<open>deviceId\<close> reads
  that device from the prototype of its body and is answered 200, not 400.
\<close>

theorem verify_without_device:
  "fst (file_activate_license ''t1'' True (Some (JString ''__proto__''))
     (Some (JString ''device-1'')) file_init) =
     (200, Status ''activated'' ''License activated successfully'') \<and>
   fst (file_verify_license (Some (JString ''__proto__'')) None
     (snd (file_activate_license ''t1'' True (Some (JString ''__proto__''))
        (Some (JString ''device-1'')) file_init))) =
     (200, Status ''valid'' ''License is valid'')"
  by (simp add: file_activate_license_def file_verify_license_def assign_and_save_def
      file_init_def getLicenses_def lookup_def inherited_names_def get_activated_def
      get_deviceId_def polluted_def saveLicenses_def falsy_def falsy_ref_def text_field_def
      text_ref_def deref_def body_deviceId_def strict_eq_def Let_def)

end
